theory Spec2Isabelle
  imports Complex_Main "HOL-Library.Sublist"
begin

section \<open>JavaScript values used by the services\<close>

text \<open>
  A nullable string is a \<open>string option\<close>. JavaScript treats \<open>null\<close>, \<open>undefined\<close> and
  the empty string as false in a condition; \<open>a || b\<close> yields \<open>a\<close> when it is truthy and
  \<open>b\<close> otherwise. A thrown \<open>Error\<close> is the left injection of a sum, carrying the message.
\<close>

definition truthy :: "string option \<Rightarrow> bool" where
  "truthy v = (case v of None \<Rightarrow> False | Some s \<Rightarrow> s \<noteq> [])"

definition js_or :: "string option \<Rightarrow> string option \<Rightarrow> string option" where
  "js_or a b = (if truthy a then a else b)"

text \<open>\<open>String.prototype.includes\<close>: the argument occurs as a contiguous substring.\<close>

fun str_includes :: "string \<Rightarrow> string \<Rightarrow> bool" where
  "str_includes [] sub = (sub = [])"
| "str_includes (c # cs) sub = (prefix sub (c # cs) \<or> str_includes cs sub)"

section \<open>Persisted records\<close>

text \<open>
  The Prisma schema is not part of the sources; the enumerations and the fields are
  the ones the services read and write. Numbers (\<open>price\<close>, \<open>size\<close>) are the finite
  values of JavaScript numbers, compared as the rationals they denote.
\<close>

datatype OrderStatus = PENDING | SUBMITTING | LIVE | MATCHED | FILLED | CANCELLED | FAILED

datatype UserStatus = CREATED | SAFE_DEPLOYING | SAFE_DEPLOYED | SETTING_UP | READY

datatype OrderSide = BUY | SELL

datatype OrderType = LIMIT | MARKET | GTC | GTD | FOK | FAK

record order =
  o_id :: string
  o_userId :: string
  o_conditionId :: string
  o_tokenId :: string
  o_side :: OrderSide
  o_price :: rat
  o_size :: rat
  o_orderType :: OrderType
  o_expiration :: "rat option"
  o_status :: OrderStatus
  o_clobOrderId :: "string option"
  o_statusMessage :: "string option"
  o_filledSize :: "rat option"

record user =
  u_id :: string
  u_externalId :: string
  u_eoaAddress :: string
  u_safeAddress :: "string option"
  u_safeDeployed :: bool
  u_status :: UserStatus
  u_encryptedPrivateKey :: "string option"
  u_encryptedApiKey :: "string option"
  u_encryptedApiSecret :: "string option"
  u_encryptedApiPassphrase :: "string option"

record activity =
  a_userId :: string
  a_action :: string
  a_resourceId :: string
  a_success :: bool

record transaction_rec =
  t_userId :: string
  t_type :: string
  t_txHash :: string
  t_safeAddress :: string

section \<open>The world: database tables, routing cache and the trace of effects\<close>

text \<open>
  Every call that leaves the process (order book, relay, chain read, market lookup),
  every wait, every write of a user's lifecycle status and the one warning that stands
  for a failed check are appended to \<open>trace\<close>, in the order in which the code performs
  them. Database operations themselves are taken to succeed.
\<close>

datatype event =
    ClobPostOrder string bool
  | ClobGetOrder string
  | ClobCancelOrder string
  | FetchClobMarket string
  | FetchGammaMarket string
  | RelayDeploy
  | RelayPoll string
  | ChainGetCode string
  | ClobDeriveApiKey
  | ClobCreateApiKey
  | Sleep nat
  | StatusWrite string UserStatus
  | ConsoleWarn string

record world =
  users :: "user list"
  orders :: "order list"
  activityLog :: "activity list"
  transactions :: "transaction_rec list"
  marketNegRiskCache :: "string \<rightharpoonup> bool"
  trace :: "event list"

definition emit :: "event \<Rightarrow> world \<Rightarrow> world" where
  "emit e w = w\<lparr>trace := trace w @ [e]\<rparr>"

definition findUser :: "world \<Rightarrow> string \<Rightarrow> user option" where
  "findUser w uid = find (\<lambda>u. u_id u = uid) (users w)"

definition findOrder :: "world \<Rightarrow> string \<Rightarrow> order option" where
  "findOrder w oid = find (\<lambda>x. o_id x = oid) (orders w)"

definition findOrderByClobId :: "world \<Rightarrow> string \<Rightarrow> order option" where
  "findOrderByClobId w cid = find (\<lambda>x. o_clobOrderId x = Some cid) (orders w)"

definition updateOrder :: "string \<Rightarrow> (order \<Rightarrow> order) \<Rightarrow> world \<Rightarrow> world" where
  "updateOrder oid f w = w\<lparr>orders := map (\<lambda>x. if o_id x = oid then f x else x) (orders w)\<rparr>"

definition updateUser :: "string \<Rightarrow> (user \<Rightarrow> user) \<Rightarrow> world \<Rightarrow> world" where
  "updateUser uid f w = w\<lparr>users := map (\<lambda>u. if u_id u = uid then f u else u) (users w)\<rparr>"

definition setUserStatus :: "string \<Rightarrow> UserStatus \<Rightarrow> world \<Rightarrow> world" where
  "setUserStatus uid s w = emit (StatusWrite uid s) (updateUser uid (\<lambda>u. u\<lparr>u_status := s\<rparr>) w)"

definition logActivity :: "string \<Rightarrow> string \<Rightarrow> string \<Rightarrow> bool \<Rightarrow> world \<Rightarrow> world" where
  "logActivity uid action rid ok w =
     w\<lparr>activityLog := activityLog w @
        [\<lparr>a_userId = uid, a_action = action, a_resourceId = rid, a_success = ok\<rparr>]\<rparr>"

text \<open>How many events of a kind the trace holds: the index of the next external answer.\<close>

definition count_events :: "(event \<Rightarrow> bool) \<Rightarrow> world \<Rightarrow> nat" where
  "count_events P w = length (filter P (trace w))"

fun is_post :: "event \<Rightarrow> bool" where
  "is_post (ClobPostOrder t n) = True"
| "is_post e = False"

fun is_get :: "event \<Rightarrow> bool" where
  "is_get (ClobGetOrder c) = True"
| "is_get e = False"

fun is_cancel :: "event \<Rightarrow> bool" where
  "is_cancel (ClobCancelOrder c) = True"
| "is_cancel e = False"

fun is_remote :: "event \<Rightarrow> bool" where
  "is_remote (Sleep n) = False"
| "is_remote (StatusWrite u s) = False"
| "is_remote (ConsoleWarn m) = False"
| "is_remote e = True"

section \<open>Key service\<close>

text \<open>
  Encryption at rest is transparent to the model: a field of the record holds the text
  that decryption would give. \<open>getUserWallet\<close> throws when the user or the stored key
  is missing; the wallet's address is the owner address stored with the user.

  \<open>getApiCredentials\<close> throws when a credential field is missing. It removes white
  space (the characters below 256 in the white-space class of regular expressions)
  from the secret, turns the URL-safe characters into the standard ones, pads the
  text to a multiple of four, and throws when the result does not match
  \<open>/^[A-Za-z0-9+/]*={0,2}$/\<close>.
\<close>

definition getUserWallet :: "world \<Rightarrow> string \<Rightarrow> string + string" where
  "getUserWallet w uid =
     (case findUser w uid of
        None \<Rightarrow> Inl ''User or private key not found''
      | Some u \<Rightarrow>
          if \<not> truthy (u_encryptedPrivateKey u) then Inl ''User or private key not found''
          else Inr (u_eoaAddress u))"

definition base64_alphabet :: string where
  "base64_alphabet = ''ABCDEFGHIJKLMNOPQRSTUVWXYZabcdefghijklmnopqrstuvwxyz0123456789+/''"

definition is_space :: "char \<Rightarrow> bool" where
  "is_space c = (c \<in> set [CHR '' '', CHR 0x09, CHR 0x0A, CHR 0x0B, CHR 0x0C, CHR 0x0D, CHR 0xA0])"

definition to_standard :: "char \<Rightarrow> char" where
  "to_standard c = (if c = CHR ''-'' then CHR ''+'' else if c = CHR ''_'' then CHR ''/'' else c)"

definition pad4 :: "string \<Rightarrow> string" where
  "pad4 s = s @ replicate ((4 - length s mod 4) mod 4) CHR ''=''"

definition convertSecret :: "string \<Rightarrow> string" where
  "convertSecret secret = pad4 (map to_standard (filter (\<lambda>c. \<not> is_space c) secret))"

definition standard_base64 :: "string \<Rightarrow> bool" where
  "standard_base64 s =
     (list_all (\<lambda>c. c \<in> set base64_alphabet) (takeWhile (\<lambda>c. c \<noteq> CHR ''='') s)
      \<and> list_all (\<lambda>c. c = CHR ''='') (dropWhile (\<lambda>c. c \<noteq> CHR ''='') s)
      \<and> length (dropWhile (\<lambda>c. c \<noteq> CHR ''='') s) \<le> 2)"

definition getApiCredentials :: "world \<Rightarrow> string \<Rightarrow> string + (string \<times> string \<times> string)" where
  "getApiCredentials w uid =
     (case findUser w uid of
        None \<Rightarrow> Inl ''API credentials not found for user''
      | Some u \<Rightarrow>
          (case (u_encryptedApiKey u, u_encryptedApiSecret u, u_encryptedApiPassphrase u) of
             (Some key, Some stored, Some passphrase) \<Rightarrow>
               if key = [] \<or> stored = [] \<or> passphrase = []
               then Inl ''API credentials not found for user''
               else if \<not> standard_base64 (convertSecret stored)
               then Inl (''Stored API secret is corrupted (invalid base64). ''
                         @ ''Call reset_credentials to regenerate.'')
               else Inr (key, convertSecret stored, passphrase)
           | other \<Rightarrow> Inl ''API credentials not found for user''))"

section \<open>Remote order book: answers of the environment\<close>

text \<open>
  The remote services are outside the program. Their answers are functions of the
  number of earlier calls of the same kind, so that two calls may be answered
  differently. \<open>parseFloat\<close> yields \<open>None\<close> for \<open>NaN\<close>, with which every comparison is false.
\<close>

record clob_order =
  co_status :: "string option"
  co_state :: "string option"
  co_size_matched :: "string option"
  co_sizeMatched :: "string option"

datatype get_result = GetThrew | GetReturned "clob_order option"

record response =
  r_error :: "string option"
  r_message :: "string option"
  r_status :: "int option"
  r_orderID :: "string option"
  r_orderId :: "string option"
  r_id :: "string option"

datatype post_result = PostThrew string | PostReturned "response option"

datatype clob_fetch = ClobFetchThrew | ClobFetchNotOk | ClobFetchOk bool

datatype gamma_fetch = GammaFetchThrew | GammaFetchNotOk | GammaFetchOk "bool list"

record clob_env =
  clob_postOrder :: "nat \<Rightarrow> post_result"
  clob_getOrder :: "nat \<Rightarrow> get_result"
  clob_cancelOrder :: "nat \<Rightarrow> bool"
  fetch_clob_market :: "string \<Rightarrow> clob_fetch"
  fetch_gamma_market :: "string \<Rightarrow> gamma_fetch"
  parseFloat :: "string \<Rightarrow> rat option"
  json_stringify :: "response \<Rightarrow> string"
  new_order_id :: "nat \<Rightarrow> string"

record OrderResult =
  res_orderId :: string
  res_clobOrderId :: "string option"
  res_status :: OrderStatus
  res_message :: "string option"

definition num_ge :: "rat option \<Rightarrow> rat \<Rightarrow> bool" where
  "num_ge a b = (case a of None \<Rightarrow> False | Some x \<Rightarrow> x \<ge> b)"

definition num_gt :: "rat option \<Rightarrow> rat \<Rightarrow> bool" where
  "num_gt a b = (case a of None \<Rightarrow> False | Some x \<Rightarrow> x > b)"

fun show_status :: "OrderStatus \<Rightarrow> string" where
  "show_status PENDING = ''PENDING''"
| "show_status SUBMITTING = ''SUBMITTING''"
| "show_status LIVE = ''LIVE''"
| "show_status MATCHED = ''MATCHED''"
| "show_status FILLED = ''FILLED''"
| "show_status CANCELLED = ''CANCELLED''"
| "show_status FAILED = ''FAILED''"

section \<open>OrderService.cancelOrder\<close>

text \<open>The first read of the remote order: its status and matched size, when it can be read.\<close>

definition read_before :: "clob_env \<Rightarrow> string \<Rightarrow> world \<Rightarrow> (string \<times> rat option) \<times> world" where
  "read_before env cid w =
     (let w1 = emit (ClobGetOrder cid) w in
      case clob_getOrder env (count_events is_get w) of
        GetThrew \<Rightarrow> ((''UNKNOWN'', Some 0), w1)
      | GetReturned None \<Rightarrow> ((''UNKNOWN'', Some 0), w1)
      | GetReturned (Some co) \<Rightarrow>
          ((case js_or (js_or (co_status co) (co_state co)) (Some ''UNKNOWN'') of
              Some s \<Rightarrow> s | None \<Rightarrow> ''UNKNOWN'',
            case js_or (js_or (co_size_matched co) (co_sizeMatched co)) (Some ''0'') of
              Some s \<Rightarrow> parseFloat env s | None \<Rightarrow> parseFloat env ''0''), w1))"

text \<open>The second read, after the cancel attempt, decides the final status.\<close>

definition read_after :: "clob_env \<Rightarrow> string \<Rightarrow> order \<Rightarrow> world \<Rightarrow> OrderStatus \<times> world" where
  "read_after env cid ord w =
     (let w1 = emit (ClobGetOrder cid) w in
      case clob_getOrder env (count_events is_get w) of
        GetThrew \<Rightarrow> (CANCELLED, w1)
      | GetReturned None \<Rightarrow> (CANCELLED, w1)
      | GetReturned (Some co) \<Rightarrow>
          (let statusAfter = (case js_or (co_status co) (Some []) of Some s \<Rightarrow> s | None \<Rightarrow> []);
               matchedAfter = (case js_or (co_size_matched co) (Some ''0'') of
                                 Some s \<Rightarrow> parseFloat env s | None \<Rightarrow> parseFloat env ''0'')
           in if statusAfter = ''MATCHED'' \<or> statusAfter = ''FILLED''
                 \<or> num_ge matchedAfter (o_size ord)
              then (FILLED, w1)
              else if num_gt matchedAfter 0
              then (CANCELLED, updateOrder (o_id ord) (\<lambda>x. x\<lparr>o_filledSize := matchedAfter\<rparr>) w1)
              else (CANCELLED, w1)))"

text \<open>The body of the \<open>try\<close> block of \<open>cancelOrder\<close>, for an order with remote id \<open>cid\<close>.\<close>

definition cancelOrder_try ::
  "clob_env \<Rightarrow> string \<Rightarrow> order \<Rightarrow> string \<Rightarrow> world \<Rightarrow> (string + OrderResult) \<times> world" where
  "cancelOrder_try env userId ord cid w =
     (case getUserWallet w userId of
        Inl e \<Rightarrow> (Inl e, w)
      | Inr wallet \<Rightarrow>
     (case getApiCredentials w userId of
        Inl e \<Rightarrow> (Inl e, w)
      | Inr creds \<Rightarrow>
     (case read_before env cid w of
        ((actualStatus, sizeMatched), w1) \<Rightarrow>
          if actualStatus = ''MATCHED'' \<or> actualStatus = ''FILLED''
             \<or> num_ge sizeMatched (o_size ord)
          then (Inr \<lparr>res_orderId = o_id ord, res_clobOrderId = Some cid, res_status = FILLED,
                     res_message = Some ''Order already filled''\<rparr>,
                updateOrder (o_id ord)
                  (\<lambda>x. x\<lparr>o_status := FILLED, o_filledSize := sizeMatched\<rparr>) w1)
          else
            (let w2 = emit (ClobCancelOrder cid) w1 in
             case read_after env cid ord w2 of
               (finalStatus, w3) \<Rightarrow>
                 (Inr \<lparr>res_orderId = o_id ord, res_clobOrderId = Some cid,
                       res_status = CANCELLED, res_message = None\<rparr>,
                  logActivity userId ''ORDER_CANCELLED'' (o_id ord) True
                    (updateOrder (o_id ord) (\<lambda>x. x\<lparr>o_status := finalStatus\<rparr>) w3))))))"

text \<open>
  \<open>cancelOrder\<close>: the order is looked up by local id, then by remote id; the four
  guards throw before the \<open>try\<close> block, whose failures are logged and thrown again.
\<close>

definition lookupOrder :: "world \<Rightarrow> string \<Rightarrow> order option" where
  "lookupOrder w orderId =
     (case findOrder w orderId of
        Some ord \<Rightarrow> Some ord
      | None \<Rightarrow> findOrderByClobId w orderId)"

definition cancelOrder ::
  "clob_env \<Rightarrow> string \<Rightarrow> string \<Rightarrow> world \<Rightarrow> (string + OrderResult) \<times> world" where
  "cancelOrder env userId orderId w =
     (case lookupOrder w orderId of
        None \<Rightarrow>
          (Inl (''Order not found. Tried both local ID and CLOB order ID: '' @ orderId), w)
      | Some ord \<Rightarrow>
          if o_userId ord \<noteq> userId then (Inl ''Order does not belong to user'', w)
          else (case o_clobOrderId ord of
                  None \<Rightarrow> (Inl ''Order has no CLOB ID'', w)
                | Some cid \<Rightarrow>
                    if cid = [] then (Inl ''Order has no CLOB ID'', w)
                    else if o_status ord \<noteq> LIVE
                    then (Inl (''Cannot cancel order with status: '' @ show_status (o_status ord)), w)
                    else (case cancelOrder_try env userId ord cid w of
                            (Inl e, w') \<Rightarrow>
                              (Inl e, logActivity userId ''ORDER_CANCEL_FAILED'' (o_id ord) False w')
                          | (Inr r, w') \<Rightarrow> (Inr r, w'))))"

section \<open>OrderService.createOrder\<close>

record CreateOrderParams =
  p_userId :: string
  p_conditionId :: string
  p_tokenId :: string
  p_side :: OrderSide
  p_price :: rat
  p_size :: rat
  p_orderType :: "OrderType option"
  p_expiration :: "rat option"

text \<open>\<open>!expiration\<close> holds for a missing expiration and for the number zero.\<close>

definition has_expiration :: "rat option \<Rightarrow> bool" where
  "has_expiration e = (case e of None \<Rightarrow> False | Some x \<Rightarrow> x \<noteq> 0)"

fun mapOrderType :: "OrderType \<Rightarrow> OrderType" where
  "mapOrderType GTC = GTC"
| "mapOrderType LIMIT = GTC"
| "mapOrderType GTD = GTD"
| "mapOrderType FOK = FOK"
| "mapOrderType FAK = FAK"
| "mapOrderType MARKET = FOK"

fun show_user_status :: "UserStatus \<Rightarrow> string" where
  "show_user_status CREATED = ''CREATED''"
| "show_user_status SAFE_DEPLOYING = ''SAFE_DEPLOYING''"
| "show_user_status SAFE_DEPLOYED = ''SAFE_DEPLOYED''"
| "show_user_status SETTING_UP = ''SETTING_UP''"
| "show_user_status READY = ''READY''"

definition cache_set :: "string \<Rightarrow> bool \<Rightarrow> world \<Rightarrow> world" where
  "cache_set conditionId b w = w\<lparr>marketNegRiskCache := (marketNegRiskCache w)(conditionId \<mapsto> b)\<rparr>"

text \<open>
  \<open>isNegRiskMarket\<close>: the cached classification if there is one; otherwise the order
  book's market record, then the second market service by token, and \<open>false\<close> when
  neither answers. Whatever is returned is cached.
\<close>

definition isNegRiskMarket :: "clob_env \<Rightarrow> string \<Rightarrow> string \<Rightarrow> world \<Rightarrow> bool \<times> world" where
  "isNegRiskMarket env conditionId tokenId w =
     (case marketNegRiskCache w conditionId of
        Some b \<Rightarrow> (b, w)
      | None \<Rightarrow>
          (let w1 = emit (FetchClobMarket conditionId) w in
           case fetch_clob_market env conditionId of
             ClobFetchOk b \<Rightarrow> (b, cache_set conditionId b w1)
           | ClobFetchThrew \<Rightarrow> (False, cache_set conditionId False w1)
           | ClobFetchNotOk \<Rightarrow>
               if tokenId \<noteq> [] then
                 (let w2 = emit (FetchGammaMarket tokenId) w1 in
                  case fetch_gamma_market env tokenId of
                    GammaFetchOk (b # bs) \<Rightarrow> (b, cache_set conditionId b w2)
                  | GammaFetchOk [] \<Rightarrow> (False, cache_set conditionId False w2)
                  | GammaFetchNotOk \<Rightarrow> (False, cache_set conditionId False w2)
                  | GammaFetchThrew \<Rightarrow> (False, cache_set conditionId False w2))
               else (False, cache_set conditionId False w1)))"

text \<open>
  \<open>attemptOrder\<close>: one creation and posting of the order under a routing flag. A thrown
  error carries the text the caller derives from it; a returned payload that has an
  \<open>error\<close> field, or the numeric status 400 or 422, is thrown as well, with the serialised
  payload as its text. The signing of the order and its posting are one answer of the
  environment; the entry of the owner address in the address map of the HTTP
  interceptor, whose failure the code ignores, is left out.
\<close>

definition checkOrderResponse :: "clob_env \<Rightarrow> post_result \<Rightarrow> string + response option" where
  "checkOrderResponse env answer =
     (case answer of
        PostThrew msg \<Rightarrow> Inl msg
      | PostReturned None \<Rightarrow> Inr None
      | PostReturned (Some r) \<Rightarrow>
          if truthy (r_error r) \<or> r_status r = Some 400 \<or> r_status r = Some 422
          then Inl (json_stringify env r)
          else Inr (Some r))"

definition attemptOrder ::
  "clob_env \<Rightarrow> string \<Rightarrow> bool \<Rightarrow> world \<Rightarrow> (string + response option) \<times> world" where
  "attemptOrder env tokenId negRiskFlag w =
     (checkOrderResponse env (clob_postOrder env (count_events is_post w)),
      emit (ClobPostOrder tokenId negRiskFlag) w)"

text \<open>The tests the \<open>catch\<close> block of the first attempt applies to the error text, in its order.\<close>

definition corrupted_credentials_error :: "string \<Rightarrow> bool" where
  "corrupted_credentials_error errorMsg =
     (str_includes errorMsg ''Invalid character'' \<or> str_includes errorMsg ''base64'')"

definition invalid_signature_error :: "string \<Rightarrow> bool" where
  "invalid_signature_error errorMsg = str_includes errorMsg ''INVALID_SIGNATURE''"

definition tick_size_error :: "string \<Rightarrow> bool" where
  "tick_size_error errorMsg =
     (str_includes errorMsg ''MIN_TICK_SIZE'' \<or> str_includes errorMsg ''tick'')"

definition balance_allowance_error :: "string \<Rightarrow> bool" where
  "balance_allowance_error errorMsg =
     (str_includes errorMsg ''balance'' \<or> str_includes errorMsg ''allowance''
      \<or> str_includes errorMsg ''INSUFFICIENT'' \<or> str_includes errorMsg ''not enough'')"

text \<open>
  The submission with its speculative retry: the first attempt under the detected
  routing; on a rejection the tests above are applied in order, and only a
  balance or allowance error leads to a second attempt under the opposite routing.
\<close>

definition submitOrder ::
  "clob_env \<Rightarrow> string \<Rightarrow> string \<Rightarrow> bool \<Rightarrow> world \<Rightarrow> (string + response option) \<times> world" where
  "submitOrder env conditionId tokenId isNegRisk w =
     (case attemptOrder env tokenId isNegRisk w of
        (Inr resp, w1) \<Rightarrow> (Inr resp, w1)
      | (Inl errorMsg, w1) \<Rightarrow>
          if corrupted_credentials_error errorMsg
          then (Inl (''Order signing failed (credentials may be corrupted): '' @ errorMsg
                     @ ''. Try calling reset_credentials.''), w1)
          else if invalid_signature_error errorMsg
          then (Inl ''Invalid signature - credentials may be corrupted. Try reset_credentials.'', w1)
          else if tick_size_error errorMsg
          then (Inl (''Price does not meet minimum tick size requirements: '' @ errorMsg), w1)
          else if balance_allowance_error errorMsg
          then (case attemptOrder env tokenId (\<not> isNegRisk) w1 of
                  (Inr resp, w2) \<Rightarrow> (Inr resp, cache_set conditionId (\<not> isNegRisk) w2)
                | (Inl retryMsg, w2) \<Rightarrow>
                    (Inl (''Order failed with both exchange contracts. Original error: ''
                          @ errorMsg
                          @ ''. This usually means insufficient USDC balance in your Safe wallet. ''
                          @ ''Please ensure you have enough USDC deposited.''), w2))
          else (Inl (''Polymarket rejected order: '' @ errorMsg), w1))"

text \<open>The message of the error that reading \<open>orderID\<close> of a null payload throws.\<close>

definition null_payload_error :: string where
  "null_payload_error =
     ''Cannot read properties of null (reading '' @ [CHR 0x27] @ ''orderID'' @ [CHR 0x27] @ '')''"

text \<open>The remote order id of a payload: \<open>orderID || orderId || id || null\<close>.\<close>

definition extract_clobOrderId :: "response \<Rightarrow> string option" where
  "extract_clobOrderId r = js_or (js_or (js_or (r_orderID r) (r_orderId r)) (r_id r)) None"

text \<open>
  What follows the submission: a payload without an order id marks the order FAILED and
  throws; otherwise the order becomes LIVE with its remote id. Reading the id of a
  null payload throws the type error of the platform, whose message is
  \<open>null_payload_error\<close>.
\<close>

definition recordResponse ::
  "string \<Rightarrow> string \<Rightarrow> response option \<Rightarrow> world \<Rightarrow> (string + OrderResult) \<times> world" where
  "recordResponse userId oid resp w =
     (case resp of
        None \<Rightarrow> (Inl null_payload_error, w)
      | Some r \<Rightarrow>
          (case extract_clobOrderId r of
             None \<Rightarrow>
               (Inl ''Order submission failed - no order ID received from Polymarket'',
                updateOrder oid (\<lambda>x. x\<lparr>o_status := FAILED, o_statusMessage :=
                  Some ''No order ID returned from Polymarket - order may not have been placed''\<rparr>) w)
           | Some cid \<Rightarrow>
               if cid = [] then
                 (Inl ''Order submission failed - no order ID received from Polymarket'',
                  updateOrder oid (\<lambda>x. x\<lparr>o_status := FAILED, o_statusMessage :=
                    Some ''No order ID returned from Polymarket - order may not have been placed''\<rparr>) w)
               else
                 (Inr \<lparr>res_orderId = oid, res_clobOrderId = Some cid, res_status = LIVE,
                       res_message = None\<rparr>,
                  logActivity userId ''ORDER_CREATED'' oid True
                    (updateOrder oid (\<lambda>x. x\<lparr>o_clobOrderId := Some cid, o_status := LIVE\<rparr>) w))))"

text \<open>The body of the \<open>try\<close> block of \<open>createOrder\<close>, for the order record \<open>oid\<close>.\<close>

definition createOrder_try ::
  "clob_env \<Rightarrow> CreateOrderParams \<Rightarrow> string \<Rightarrow> world \<Rightarrow> (string + OrderResult) \<times> world" where
  "createOrder_try env params oid w =
     (let w1 = updateOrder oid (\<lambda>x. x\<lparr>o_status := SUBMITTING\<rparr>) w in
      case getUserWallet w1 (p_userId params) of
        Inl e \<Rightarrow> (Inl e, w1)
      | Inr wallet \<Rightarrow>
     (case getApiCredentials w1 (p_userId params) of
        Inl e \<Rightarrow> (Inl e, w1)
      | Inr creds \<Rightarrow>
     (case isNegRiskMarket env (p_conditionId params) (p_tokenId params) w1 of
        (isNegRisk, w2) \<Rightarrow>
     (case submitOrder env (p_conditionId params) (p_tokenId params) isNegRisk w2 of
        (Inl e, w3) \<Rightarrow> (Inl e, w3)
      | (Inr resp, w3) \<Rightarrow> recordResponse (p_userId params) oid resp w3))))"

definition newOrder :: "CreateOrderParams \<Rightarrow> OrderType \<Rightarrow> string \<Rightarrow> order" where
  "newOrder params orderType oid =
     \<lparr>o_id = oid, o_userId = p_userId params, o_conditionId = p_conditionId params,
      o_tokenId = p_tokenId params, o_side = p_side params, o_price = p_price params,
      o_size = p_size params, o_orderType = orderType,
      o_expiration = (case p_expiration params of
                        None \<Rightarrow> None
                      | Some e \<Rightarrow> if e = 0 then None else Some (e * 1000)),
      o_status = PENDING, o_clobOrderId = None, o_statusMessage = None, o_filledSize = None\<rparr>"

text \<open>
  \<open>createOrder\<close>: three validations, three checks of the user, the PENDING record,
  the \<open>try\<close> block, and the \<open>catch\<close> block that marks the record FAILED, logs the
  failure and throws the error again.
\<close>

definition createOrder ::
  "clob_env \<Rightarrow> CreateOrderParams \<Rightarrow> world \<Rightarrow> (string + OrderResult) \<times> world" where
  "createOrder env params w =
     (let orderType = (case p_orderType params of None \<Rightarrow> GTC | Some t \<Rightarrow> t) in
      if p_price params < 0.01 \<or> p_price params > 0.99
      then (Inl ''Price must be between 0.01 and 0.99'', w)
      else if p_size params \<le> 0
      then (Inl ''Size must be positive'', w)
      else if orderType = GTD \<and> \<not> has_expiration (p_expiration params)
      then (Inl ''GTD orders require an expiration timestamp'', w)
      else
        (case findUser w (p_userId params) of
           None \<Rightarrow> (Inl ''User not found'', w)
         | Some usr \<Rightarrow>
             if u_status usr \<noteq> READY
             then (Inl (''User not ready for trading. Current status: ''
                        @ show_user_status (u_status usr)), w)
             else if \<not> truthy (u_safeAddress usr)
             then (Inl ''Safe wallet not deployed'', w)
             else
               (let oid = new_order_id env (length (orders w));
                    w1 = w\<lparr>orders := orders w @ [newOrder params orderType oid]\<rparr>
                in case createOrder_try env params oid w1 of
                     (Inr r, w2) \<Rightarrow> (Inr r, w2)
                   | (Inl e, w2) \<Rightarrow>
                       (Inl e,
                        logActivity (p_userId params) ''ORDER_FAILED'' oid False
                          (updateOrder oid
                             (\<lambda>x. x\<lparr>o_status := FAILED, o_statusMessage := Some e\<rparr>) w2)))))"

text \<open>
  The calls of \<open>createOrder\<close> that get as far as the remote submission: the validations
  pass, the user is READY with a contract-account address, and the key service can hand
  out the wallet and the credentials.
\<close>

definition reaches_submission :: "CreateOrderParams \<Rightarrow> world \<Rightarrow> bool" where
  "reaches_submission params w =
     (0.01 \<le> p_price params \<and> p_price params \<le> 0.99 \<and> 0 < p_size params
      \<and> (p_orderType params = Some GTD \<longrightarrow> has_expiration (p_expiration params))
      \<and> (case findUser w (p_userId params) of
            None \<Rightarrow> False
          | Some usr \<Rightarrow> u_status usr = READY \<and> truthy (u_safeAddress usr))
      \<and> \<not> isl (getUserWallet w (p_userId params))
      \<and> \<not> isl (getApiCredentials w (p_userId params)))"

section \<open>POST /api/orders/execute-atomic\<close>

text \<open>
  The handler of the atomic batch. The request carries the orders, an optional user id
  and an optional API key; the owner of an active API key is an answer of the
  environment. An \<open>AppError\<close> is a message with its HTTP status.
\<close>

record AtomicOrderInput =
  ai_tokenId :: string
  ai_conditionId :: "string option"
  ai_marketId :: "string option"
  ai_side :: OrderSide
  ai_price :: rat
  ai_size :: rat
  ai_orderType :: "OrderType option"

record AtomicRequest =
  rq_orders :: "AtomicOrderInput list"
  rq_userId :: "string option"
  rq_apiKey :: "string option"

record OrderResultEntry =
  or_index :: nat
  or_orderId :: "string option"
  or_clobOrderId :: "string option"
  or_success :: bool
  or_error :: "string option"

record AtomicResponse =
  ar_httpStatus :: nat
  ar_success :: bool
  ar_orderResults :: "OrderResultEntry list"

record LoopState =
  ls_world :: world
  ls_hasFailure :: bool
  ls_submittedOrders :: "string list"
  ls_orderResults :: "OrderResultEntry list"

definition findUserByExternalId :: "world \<Rightarrow> string \<Rightarrow> user option" where
  "findUserByExternalId w ext = find (\<lambda>u. u_externalId u = ext) (users w)"

definition index_str :: "nat \<Rightarrow> string" where
  "index_str i = [''0123456789'' ! i]"

text \<open>The validation of one order of the batch; the index is below ten.\<close>

definition validateAtomicOrder :: "nat \<Rightarrow> AtomicOrderInput \<Rightarrow> string option" where
  "validateAtomicOrder i x =
     (if ai_tokenId x = [] then Some (''Order '' @ index_str i @ '': tokenId is required'')
      else if ai_price x < 0.01 \<or> ai_price x > 0.99
      then Some (''Order '' @ index_str i @ '': price must be between 0.01 and 0.99'')
      else if ai_size x \<le> 0
      then Some (''Order '' @ index_str i @ '': size must be a positive number'')
      else None)"

fun validateAtomicOrders :: "nat \<Rightarrow> AtomicOrderInput list \<Rightarrow> string option" where
  "validateAtomicOrders i [] = None"
| "validateAtomicOrders i (x # xs) =
     (case validateAtomicOrder i x of
        Some e \<Rightarrow> Some e
      | None \<Rightarrow> validateAtomicOrders (Suc i) xs)"

definition atomicOrderRecord :: "string \<Rightarrow> AtomicOrderInput \<Rightarrow> string \<Rightarrow> order" where
  "atomicOrderRecord userId x oid =
     \<lparr>o_id = oid, o_userId = userId,
      o_conditionId = (case js_or (js_or (ai_conditionId x) (ai_marketId x)) (Some ''atomic-batch'') of
                         Some c \<Rightarrow> c | None \<Rightarrow> ''atomic-batch''),
      o_tokenId = ai_tokenId x, o_side = ai_side x, o_price = ai_price x, o_size = ai_size x,
      o_orderType = (case ai_orderType x of None \<Rightarrow> FOK | Some t \<Rightarrow> t),
      o_expiration = None, o_status = PENDING, o_clobOrderId = None, o_statusMessage = None,
      o_filledSize = None\<rparr>"

text \<open>
  What the \<open>try\<close> block makes of the answer to one posting: the remote order id, or
  the message of the error it throws.
\<close>

definition atomicOrderOutcome :: "post_result \<Rightarrow> string + string" where
  "atomicOrderOutcome answer =
     (case answer of
        PostThrew msg \<Rightarrow> Inl msg
      | PostReturned None \<Rightarrow> Inl null_payload_error
      | PostReturned (Some r) \<Rightarrow>
          if truthy (r_error r) \<or> r_status r = Some 400 \<or> r_status r = Some 422
          then Inl (case js_or (js_or (r_error r) (r_message r)) (Some ''Order rejected'') of
                      Some m \<Rightarrow> m | None \<Rightarrow> ''Order rejected'')
          else (case extract_clobOrderId r of
                  None \<Rightarrow> Inl ''No order ID returned from Polymarket''
                | Some cid \<Rightarrow>
                    if cid = [] then Inl ''No order ID returned from Polymarket'' else Inr cid))"

text \<open>
  One iteration of the loop: the PENDING record, the posting under the default routing,
  and either the LIVE record with an entry in the rollback list, or the \<open>catch\<close> block
  that sets the failure flag and records the error. The iteration ends in both cases
  and the loop goes on to the next order.
\<close>

definition processOrder :: "clob_env \<Rightarrow> string \<Rightarrow> nat \<Rightarrow> AtomicOrderInput \<Rightarrow> LoopState \<Rightarrow> LoopState" where
  "processOrder env userId i x st =
     (let w = ls_world st;
          oid = new_order_id env (length (orders w));
          w1 = w\<lparr>orders := orders w @ [atomicOrderRecord userId x oid]\<rparr>;
          w2 = emit (ClobPostOrder (ai_tokenId x) False) w1
      in case atomicOrderOutcome (clob_postOrder env (count_events is_post w1)) of
           Inr cid \<Rightarrow>
             st\<lparr>ls_world := updateOrder oid (\<lambda>r. r\<lparr>o_clobOrderId := Some cid, o_status := LIVE\<rparr>) w2,
                ls_submittedOrders := ls_submittedOrders st @ [cid],
                ls_orderResults := ls_orderResults st @
                  [\<lparr>or_index = i, or_orderId = Some oid, or_clobOrderId = Some cid,
                    or_success = True, or_error = None\<rparr>]\<rparr>
         | Inl msg \<Rightarrow>
             st\<lparr>ls_world := w2,
                ls_hasFailure := True,
                ls_orderResults := ls_orderResults st @
                  [\<lparr>or_index = i, or_orderId = None, or_clobOrderId = None,
                    or_success = False,
                    or_error = Some (if msg = [] then ''Order failed'' else msg)\<rparr>]\<rparr>)"

fun processOrders :: "clob_env \<Rightarrow> string \<Rightarrow> nat \<Rightarrow> AtomicOrderInput list \<Rightarrow> LoopState \<Rightarrow> LoopState" where
  "processOrders env userId i [] st = st"
| "processOrders env userId i (x # xs) st =
     processOrders env userId (Suc i) xs (processOrder env userId i x st)"

text \<open>The cancel calls of the rollback: one per submitted order, failures ignored.\<close>

fun cancelSubmitted :: "clob_env \<Rightarrow> string list \<Rightarrow> world \<Rightarrow> world" where
  "cancelSubmitted env [] w = w"
| "cancelSubmitted env (cid # cids) w =
     (if clob_cancelOrder env (count_events is_cancel w)
      then cancelSubmitted env cids (emit (ClobCancelOrder cid) w)
      else cancelSubmitted env cids (emit (ClobCancelOrder cid) w))"

text \<open>\<open>updateMany\<close> over the records whose remote id is in the rollback list.\<close>

definition markCancelled :: "string list \<Rightarrow> world \<Rightarrow> world" where
  "markCancelled submitted w =
     w\<lparr>orders := map (\<lambda>r. case o_clobOrderId r of
                              None \<Rightarrow> r
                            | Some c \<Rightarrow>
                                if c \<in> set submitted
                                then r\<lparr>o_status := CANCELLED, o_statusMessage :=
                                       Some ''Cancelled due to atomic batch failure''\<rparr>
                                else r) (orders w)\<rparr>"

text \<open>The loop, the rollback and the response, for the user the request resolved to.\<close>

definition executeBatch ::
  "clob_env \<Rightarrow> string \<Rightarrow> AtomicOrderInput list \<Rightarrow> world \<Rightarrow> AtomicResponse \<times> world" where
  "executeBatch env userId batch w =
     (let st = processOrders env userId 0 batch
                 \<lparr>ls_world = w, ls_hasFailure = False, ls_submittedOrders = [],
                  ls_orderResults = []\<rparr>
      in if ls_hasFailure st \<and> ls_submittedOrders st \<noteq> []
         then (\<lparr>ar_httpStatus = 400, ar_success = False, ar_orderResults = ls_orderResults st\<rparr>,
               markCancelled (ls_submittedOrders st)
                 (cancelSubmitted env (ls_submittedOrders st) (ls_world st)))
         else (\<lparr>ar_httpStatus = 200, ar_success = True, ar_orderResults = ls_orderResults st\<rparr>,
               ls_world st))"

definition resolveUser :: "(string \<Rightarrow> string option) \<Rightarrow> AtomicRequest \<Rightarrow> world \<Rightarrow> user option" where
  "resolveUser key_owner req w =
     (let byKey = (case rq_apiKey req of
                     None \<Rightarrow> None
                   | Some k \<Rightarrow> if k = [] then None
                              else (case key_owner k of None \<Rightarrow> None | Some uid \<Rightarrow> findUser w uid));
          byId = (case byKey of
                    Some u \<Rightarrow> Some u
                  | None \<Rightarrow> (case rq_userId req of
                               None \<Rightarrow> None
                             | Some b \<Rightarrow> if b = [] then None else findUser w b))
      in case byId of
           Some u \<Rightarrow> Some u
         | None \<Rightarrow> (case rq_userId req of
                      None \<Rightarrow> None
                    | Some b \<Rightarrow> if b = [] then None else findUserByExternalId w b))"

definition executeAtomic ::
  "clob_env \<Rightarrow> (string \<Rightarrow> string option) \<Rightarrow> AtomicRequest \<Rightarrow> world
   \<Rightarrow> ((string \<times> nat) + AtomicResponse) \<times> world" where
  "executeAtomic env key_owner req w =
     (if rq_orders req = []
      then (Inl (''orders array is required and must not be empty'', 400), w)
      else if length (rq_orders req) > 10
      then (Inl (''Maximum 10 orders per atomic batch'', 400), w)
      else
        (case resolveUser key_owner req w of
           None \<Rightarrow>
             (Inl (''User not found. Ensure your API key is valid or provide a valid userId.'', 404), w)
         | Some usr \<Rightarrow>
             if \<not> truthy (u_safeAddress usr)
             then (Inl (''User wallet not set up. Call setup_wallet first.'', 400), w)
             else
               (case validateAtomicOrders 0 (rq_orders req) of
                  Some e \<Rightarrow> (Inl (e, 400), w)
                | None \<Rightarrow>
                    (case getUserWallet w (u_id usr) of
                       Inl e \<Rightarrow> (Inl (e, 500), w)
                     | Inr wallet \<Rightarrow>
                    (case getApiCredentials w (u_id usr) of
                       Inl e \<Rightarrow> (Inl (e, 500), w)
                     | Inr creds \<Rightarrow>
                         (case executeBatch env (u_id usr) (rq_orders req) w of
                            (resp, w') \<Rightarrow> (Inr resp, w')))))))"

text \<open>The remote ids of the orders the loop reports as accepted.\<close>

definition acceptedIds :: "OrderResultEntry list \<Rightarrow> string list" where
  "acceptedIds rs =
     concat (map (\<lambda>r. case or_clobOrderId r of None \<Rightarrow> [] | Some c \<Rightarrow> [c]) (filter or_success rs))"

text \<open>
  The invariant of the loop, for a table that held \<open>n0\<close> records before the batch: each
  processed order has its record, and the record of an accepted order carries a remote
  id of the rollback list.
\<close>

definition batch_inv :: "nat \<Rightarrow> LoopState \<Rightarrow> bool" where
  "batch_inv n0 st =
     (length (orders (ls_world st)) = n0 + length (ls_orderResults st)
      \<and> (\<forall>j < length (ls_orderResults st).
            or_success (ls_orderResults st ! j) \<longrightarrow>
            (\<exists>c \<in> set (ls_submittedOrders st).
               o_clobOrderId (orders (ls_world st) ! (n0 + j)) = Some c))
      \<and> ls_submittedOrders st = acceptedIds (ls_orderResults st)
      \<and> ls_hasFailure st = (\<exists>r \<in> set (ls_orderResults st). \<not> or_success r))"

text \<open>
  Two intermediate states of such a call: the world with the new PENDING record, and the
  routing flag and world with which the submission starts (the record is SUBMITTING and
  the market has been classified).
\<close>

definition pending_world :: "clob_env \<Rightarrow> CreateOrderParams \<Rightarrow> world \<Rightarrow> world" where
  "pending_world env p w =
     w\<lparr>orders := orders w @ [newOrder p (case p_orderType p of None \<Rightarrow> GTC | Some t \<Rightarrow> t)
         (new_order_id env (length (orders w)))]\<rparr>"

definition submission_state :: "clob_env \<Rightarrow> CreateOrderParams \<Rightarrow> world \<Rightarrow> bool \<times> world" where
  "submission_state env p w =
     isNegRiskMarket env (p_conditionId p) (p_tokenId p)
       (updateOrder (new_order_id env (length (orders w)))
          (\<lambda>x. x\<lparr>o_status := SUBMITTING\<rparr>) (pending_world env p w))"

section \<open>Wallet service: answers of the environment\<close>

text \<open>
  The relay, the chain, the credential endpoints of the order book and the base64 codec
  of the platform are outside the program. A deployment call and a chain read are
  answered by the number of earlier calls of the same kind; a chain read returns the
  code at an address or throws, when no RPC endpoint answers. The predicted address is
  the CREATE2 address the cryptographic library computes, or nothing when it throws.
\<close>

record deploy_response =
  dr_proxyAddress :: "string option"
  dr_proxyWallet :: "string option"
  dr_transactionID :: "string option"
  dr_transactionHash :: "string option"

datatype deploy_result = DeployThrew string | DeployReturned "deploy_response option"

record poll_response =
  pr_proxyAddress :: "string option"
  pr_transactionHash :: "string option"

datatype poll_result = PollThrew string | PollReturned "poll_response option"

record api_key_response =
  ak_apiKey :: "string option"
  ak_key :: "string option"
  ak_apiSecret :: "string option"
  ak_secret :: "string option"
  ak_apiPassphrase :: "string option"
  ak_passphrase :: "string option"

datatype api_key_result = ApiKeyThrew string | ApiKeyReturned "api_key_response option"

datatype code_result = CodeThrew string | CodeReturned string

record wallet_env =
  relay_deploy :: "nat \<Rightarrow> deploy_result"
  relay_pollUntilState :: "string \<Rightarrow> poll_result"
  provider_getCode :: "nat \<Rightarrow> string \<Rightarrow> code_result"
  getPredictedSafeAddress :: "string \<Rightarrow> string option"
  builder_apiKey :: "string option"
  builder_secret :: "string option"
  builder_passphrase :: "string option"
  clob_deriveApiKey :: api_key_result
  clob_createApiKey :: api_key_result
  buffer_from_base64 :: "string \<Rightarrow> nat list option"
  buffer_to_base64 :: "nat list \<Rightarrow> string"

fun is_deploy :: "event \<Rightarrow> bool" where
  "is_deploy RelayDeploy = True"
| "is_deploy e = False"

fun is_getCode :: "event \<Rightarrow> bool" where
  "is_getCode (ChainGetCode a) = True"
| "is_getCode e = False"

fun is_sleep :: "event \<Rightarrow> bool" where
  "is_sleep (Sleep n) = True"
| "is_sleep e = False"

definition getBuilderConfig :: "wallet_env \<Rightarrow> bool" where
  "getBuilderConfig env =
     (truthy (builder_apiKey env) \<and> truthy (builder_secret env) \<and> truthy (builder_passphrase env))"

definition has_code :: "string \<Rightarrow> bool" where
  "has_code code = (code \<noteq> ''0x'' \<and> length code > 2)"

definition getCode :: "wallet_env \<Rightarrow> string \<Rightarrow> world \<Rightarrow> code_result \<times> world" where
  "getCode env addr w =
     (provider_getCode env (count_events is_getCode w) addr, emit (ChainGetCode addr) w)"

text \<open>The first match of \<open>/0x[a-fA-F0-9]{40}/\<close> in a text.\<close>

definition is_hex :: "char \<Rightarrow> bool" where
  "is_hex c = (c \<in> set ''0123456789abcdefABCDEF'')"

fun match_address :: "string \<Rightarrow> string option" where
  "match_address [] = None"
| "match_address (c # cs) =
     (if prefix ''0x'' (c # cs) \<and> length (take 40 (drop 1 cs)) = 40
         \<and> list_all is_hex (take 40 (drop 1 cs))
      then Some (take 42 (c # cs))
      else match_address cs)"

text \<open>\<open>toLowerCase\<close>, on the letters of the ASCII alphabet.\<close>

definition to_lower :: "char \<Rightarrow> char" where
  "to_lower c =
     (case map_of (zip ''ABCDEFGHIJKLMNOPQRSTUVWXYZ'' ''abcdefghijklmnopqrstuvwxyz'') c of
        Some l \<Rightarrow> l
      | None \<Rightarrow> c)"

definition toLowerCase :: "string \<Rightarrow> string" where
  "toLowerCase s = map to_lower s"

section \<open>WalletService.deploySafeWallet\<close>

text \<open>
  \<open>saveSafeDeployment\<close>: the transaction record, the user with address, deployment flag
  and status SAFE_DEPLOYED in one write, and the activity entry.
\<close>

definition markDeployed :: "string \<Rightarrow> string \<Rightarrow> world \<Rightarrow> world" where
  "markDeployed userId safeAddress w =
     emit (StatusWrite userId SAFE_DEPLOYED)
       (updateUser userId
          (\<lambda>u. u\<lparr>u_safeAddress := Some safeAddress, u_safeDeployed := True,
                 u_status := SAFE_DEPLOYED\<rparr>) w)"

definition saveSafeDeployment :: "string \<Rightarrow> string \<Rightarrow> string \<Rightarrow> string \<Rightarrow> world \<Rightarrow> world" where
  "saveSafeDeployment userId ownerAddress safeAddress txHash w =
     logActivity userId ''SAFE_DEPLOYED'' safeAddress True
       (markDeployed userId safeAddress
          (w\<lparr>transactions := transactions w @
              [\<lparr>t_userId = userId, t_type = ''SAFE_DEPLOY'', t_txHash = txHash,
                t_safeAddress = safeAddress\<rparr>]\<rparr>))"

text \<open>
  The variables of the retry loop, and how one iteration ends: the function returns an
  address, the loop is left by \<open>break\<close>, the next iteration follows, or an error
  thrown inside the \<open>catch\<close> block leaves the loop.
\<close>

record deploy_vars =
  dv_response :: "deploy_response option"
  dv_lastError :: "string option"
  dv_knownProxyWallet :: "string option"

datatype loop_flow = Returned string | Broke | Next | Threw string

definition waitBeforeRetry :: "nat \<Rightarrow> world \<Rightarrow> world" where
  "waitBeforeRetry attempt w = (if attempt < 3 then emit (Sleep (attempt * 2000)) w else w)"

text \<open>
  The \<open>catch\<close> block of an iteration, for an error with message \<open>msg\<close>: an address named
  in the message becomes the known address if there is none yet; the known or else the
  predicted address is read from the chain, and contract code there ends the call with
  success; otherwise the loop waits, unless this was the last attempt. A chain read
  that throws here is not caught by the loop.
\<close>

definition deployCatch ::
  "wallet_env \<Rightarrow> string \<Rightarrow> string \<Rightarrow> nat \<Rightarrow> string \<Rightarrow> deploy_vars \<Rightarrow> world
   \<Rightarrow> loop_flow \<times> deploy_vars \<times> world" where
  "deployCatch env userId walletAddress attempt msg vars w =
     (let errorMsg = (if msg = [] then ''Error'' else msg);
          known = (case match_address errorMsg of
                     Some a \<Rightarrow> if \<not> truthy (dv_knownProxyWallet vars) then Some a
                               else dv_knownProxyWallet vars
                   | None \<Rightarrow> dv_knownProxyWallet vars);
          vars1 = vars\<lparr>dv_lastError := Some msg, dv_knownProxyWallet := known\<rparr>;
          addressToCheck = js_or known (getPredictedSafeAddress env walletAddress)
      in case addressToCheck of
           None \<Rightarrow> (Next, vars1, waitBeforeRetry attempt w)
         | Some a \<Rightarrow>
             if a = [] then (Next, vars1, waitBeforeRetry attempt w)
             else (case getCode env a w of
                     (CodeThrew m, w1) \<Rightarrow> (Threw m, vars1, w1)
                   | (CodeReturned code, w1) \<Rightarrow>
                       if has_code code
                       then (Returned a, vars1,
                             saveSafeDeployment userId walletAddress a ''pre-existing'' w1)
                       else (Next, vars1, waitBeforeRetry attempt w1)))"

text \<open>What follows the address check of the \<open>try\<close> block: \<open>break\<close> on a transaction id, an error otherwise.\<close>

definition deployCheckTransaction ::
  "wallet_env \<Rightarrow> string \<Rightarrow> string \<Rightarrow> nat \<Rightarrow> deploy_vars \<Rightarrow> world
   \<Rightarrow> loop_flow \<times> deploy_vars \<times> world" where
  "deployCheckTransaction env userId walletAddress attempt vars w =
     (if truthy (case dv_response vars of None \<Rightarrow> None | Some r \<Rightarrow> dr_transactionID r)
      then (Broke, vars, w)
      else deployCatch env userId walletAddress attempt
             ''No transaction ID in deploy response'' vars w)"

text \<open>
  One iteration of the retry loop. The chain read of the \<open>try\<close> block is inside it: when
  it throws, the \<open>catch\<close> block runs with its error.
\<close>

definition deployAttempt ::
  "wallet_env \<Rightarrow> string \<Rightarrow> string \<Rightarrow> nat \<Rightarrow> deploy_vars \<Rightarrow> world
   \<Rightarrow> loop_flow \<times> deploy_vars \<times> world" where
  "deployAttempt env userId walletAddress attempt vars w =
     (let w1 = emit RelayDeploy w in
      case relay_deploy env (count_events is_deploy w) of
        DeployThrew msg \<Rightarrow> deployCatch env userId walletAddress attempt msg vars w1
      | DeployReturned resp \<Rightarrow>
          (let vars1 = vars\<lparr>dv_response := resp\<rparr>;
               proxyAddr = (case resp of
                              None \<Rightarrow> None
                            | Some r \<Rightarrow> js_or (dr_proxyAddress r) (dr_proxyWallet r))
           in case proxyAddr of
                None \<Rightarrow> deployCheckTransaction env userId walletAddress attempt vars1 w1
              | Some a \<Rightarrow>
                  if a = [] then deployCheckTransaction env userId walletAddress attempt vars1 w1
                  else
                    (let vars2 = vars1\<lparr>dv_knownProxyWallet := Some a\<rparr> in
                     case getCode env a w1 of
                       (CodeThrew m, w2) \<Rightarrow>
                         deployCatch env userId walletAddress attempt m vars2 w2
                     | (CodeReturned code, w2) \<Rightarrow>
                         if has_code code
                         then (Returned a, vars2,
                               saveSafeDeployment userId walletAddress a
                                 (case js_or (case resp of None \<Rightarrow> None
                                              | Some r \<Rightarrow> dr_transactionHash r)
                                         (Some ''pre-existing'') of
                                    Some h \<Rightarrow> h | None \<Rightarrow> ''pre-existing'') w2)
                         else deployCheckTransaction env userId walletAddress attempt vars2 w2)))"

text \<open>
  The loop \<open>for (attempt = 1; attempt <= maxRetries; attempt++)\<close> with \<open>maxRetries = 3\<close>.
  Its result says how it was left: by \<open>return\<close>, by \<open>break\<close>, by a thrown error, or
  (\<open>Next\<close>) because the attempts are used up.
\<close>

function deployAttempts ::
  "wallet_env \<Rightarrow> string \<Rightarrow> string \<Rightarrow> nat \<Rightarrow> deploy_vars \<Rightarrow> world
   \<Rightarrow> loop_flow \<times> deploy_vars \<times> world" where
  "deployAttempts env userId walletAddress attempt vars w =
     (if attempt \<le> 3
      then (case deployAttempt env userId walletAddress attempt vars w of
              (Next, vars', w') \<Rightarrow> deployAttempts env userId walletAddress (Suc attempt) vars' w'
            | (flow, vars', w') \<Rightarrow> (flow, vars', w'))
      else (Next, vars, w))"
  by pat_completeness auto
termination
  by (relation "measure (\<lambda>(env, userId, walletAddress, attempt, vars, w). 4 - attempt)") auto

text \<open>
  After an inconclusive confirmation: the known address is read from the chain, once
  more after five seconds, then the predicted address if it differs; when none holds
  code the deployment has failed. A chain read that throws ends the \<open>try\<close> block with
  its error.
\<close>

definition deployFailureMessage :: "wallet_env \<Rightarrow> string option \<Rightarrow> string option \<Rightarrow> string" where
  "deployFailureMessage env known predicted =
     ''Safe deployment failed - no proxy address returned and Safe not found on-chain. ''
     @ ''Known proxy: '' @ (case js_or known (Some ''none'') of Some a \<Rightarrow> a | None \<Rightarrow> ''none'')
     @ '', Predicted: '' @ (case js_or predicted (Some ''none'') of Some a \<Rightarrow> a | None \<Rightarrow> ''none'')
     @ ''. ''
     @ (if getBuilderConfig env
        then ''Builder credentials are configured but the relayer rejected the deployment.''
        else ''CRITICAL: Builder credentials are NOT configured. Set POLY_BUILDER_API_KEY, POLY_BUILDER_SECRET, and POLY_BUILDER_PASSPHRASE environment variables.'')
     @ '' If this persists, check your Builder API credentials at https://polymarket.com/settings?tab=builder''"

definition checkPredicted ::
  "wallet_env \<Rightarrow> string \<Rightarrow> string \<Rightarrow> string option \<Rightarrow> world \<Rightarrow> (string + string) \<times> world" where
  "checkPredicted env userId walletAddress known w =
     (let predicted = getPredictedSafeAddress env walletAddress in
      if truthy predicted \<and> predicted \<noteq> known
      then (case predicted of
              None \<Rightarrow> (Inl (deployFailureMessage env known predicted), w)
            | Some p \<Rightarrow>
                (case getCode env p w of
                   (CodeThrew m, w1) \<Rightarrow> (Inl m, w1)
                 | (CodeReturned code, w1) \<Rightarrow>
                     if has_code code
                     then (Inr p, saveSafeDeployment userId walletAddress p ''recovered-predicted'' w1)
                     else (Inl (deployFailureMessage env known predicted), w1)))
      else (Inl (deployFailureMessage env known predicted), w))"

definition recoverAfterPoll ::
  "wallet_env \<Rightarrow> string \<Rightarrow> string \<Rightarrow> string option \<Rightarrow> world \<Rightarrow> (string + string) \<times> world" where
  "recoverAfterPoll env userId walletAddress known w =
     (case known of
        None \<Rightarrow> checkPredicted env userId walletAddress known w
      | Some k \<Rightarrow>
          if k = [] then checkPredicted env userId walletAddress known w
          else (case getCode env k w of
                  (CodeThrew m, w1) \<Rightarrow> (Inl m, w1)
                | (CodeReturned code, w1) \<Rightarrow>
                    if has_code code
                    then (Inr k, saveSafeDeployment userId walletAddress k ''recovered-known'' w1)
                    else (case getCode env k (emit (Sleep 5000) w1) of
                            (CodeThrew m, w2) \<Rightarrow> (Inl m, w2)
                          | (CodeReturned codeRetry, w2) \<Rightarrow>
                              if has_code codeRetry
                              then (Inr k, saveSafeDeployment userId walletAddress k
                                             ''recovered-delayed'' w2)
                              else checkPredicted env userId walletAddress known w2)))"

text \<open>The confirmation: polling for the transaction, whose failure is not yet a failure of the call.\<close>

definition deployConfirm ::
  "wallet_env \<Rightarrow> string \<Rightarrow> string \<Rightarrow> string \<Rightarrow> string option \<Rightarrow> world
   \<Rightarrow> (string + string) \<times> world" where
  "deployConfirm env userId walletAddress txid known w =
     (let w1 = emit (RelayPoll txid) w;
          result = (case relay_pollUntilState env txid of
                      PollThrew m \<Rightarrow> None
                    | PollReturned r \<Rightarrow> r)
      in case result of
           None \<Rightarrow> recoverAfterPoll env userId walletAddress known w1
         | Some r \<Rightarrow>
             (case pr_proxyAddress r of
                None \<Rightarrow> recoverAfterPoll env userId walletAddress known w1
              | Some a \<Rightarrow>
                  if a = [] then recoverAfterPoll env userId walletAddress known w1
                  else (Inr a,
                        saveSafeDeployment userId walletAddress a
                          (case pr_transactionHash r of Some h \<Rightarrow> h | None \<Rightarrow> []) w1)))"

text \<open>The body of the \<open>try\<close> block of \<open>deploySafeWallet\<close>.\<close>

definition deploySafeWallet_try ::
  "wallet_env \<Rightarrow> string \<Rightarrow> world \<Rightarrow> (string + string) \<times> world" where
  "deploySafeWallet_try env userId w =
     (case getUserWallet w userId of
        Inl e \<Rightarrow> (Inl e, w)
      | Inr walletAddress \<Rightarrow>
          if \<not> getBuilderConfig env
          then (Inl ''Builder credentials not configured - required for gasless Safe deployment'', w)
          else
            (case deployAttempts env userId walletAddress 1
                    \<lparr>dv_response = None, dv_lastError = None, dv_knownProxyWallet = None\<rparr> w of
               (Returned a, vars, w1) \<Rightarrow> (Inr a, w1)
             | (Threw m, vars, w1) \<Rightarrow> (Inl m, w1)
             | (flow, vars, w1) \<Rightarrow>
                 (case (case dv_response vars of None \<Rightarrow> None | Some r \<Rightarrow> dr_transactionID r) of
                    None \<Rightarrow>
                      (Inl (case dv_lastError vars of
                              Some e \<Rightarrow> e
                            | None \<Rightarrow> ''Failed to submit Safe deployment after retries''), w1)
                  | Some txid \<Rightarrow>
                      if txid = []
                      then (Inl (case dv_lastError vars of
                                   Some e \<Rightarrow> e
                                 | None \<Rightarrow> ''Failed to submit Safe deployment after retries''), w1)
                      else deployConfirm env userId walletAddress txid
                             (dv_knownProxyWallet vars) w1)))"

text \<open>
  The outer \<open>catch\<close> block. An error that says the contract account is already deployed
  starts a recovery of the address: from the message, from one more deployment call,
  from the prediction; an address with code on the chain is persisted and returned.
  An error thrown during the recovery, a chain read among them, is caught and dropped.
  Every other path reverts the status to CREATED and throws the error again.
\<close>

definition alreadyDeployedMessage :: "string \<Rightarrow> bool" where
  "alreadyDeployedMessage errorMessage =
     (str_includes (toLowerCase errorMessage) ''safe already deployed''
      \<or> str_includes (toLowerCase errorMessage) ''already deployed''
      \<or> str_includes (toLowerCase errorMessage) ''proxy already exists'')"

definition retryDeployForAddress :: "wallet_env \<Rightarrow> world \<Rightarrow> string option \<times> world" where
  "retryDeployForAddress env w =
     (case relay_deploy env (count_events is_deploy w) of
        DeployThrew retryMsg \<Rightarrow> (match_address retryMsg, emit RelayDeploy w)
      | DeployReturned None \<Rightarrow> (None, emit RelayDeploy w)
      | DeployReturned (Some r) \<Rightarrow>
          (if truthy (dr_proxyAddress r) then dr_proxyAddress r else None, emit RelayDeploy w))"

definition persistRecovered ::
  "wallet_env \<Rightarrow> string \<Rightarrow> string option \<Rightarrow> world \<Rightarrow> string option \<times> world" where
  "persistRecovered env userId safeAddress w =
     (case safeAddress of
        None \<Rightarrow> (None, w)
      | Some a \<Rightarrow>
          if a = [] then (None, w)
          else (case getCode env a w of
                  (CodeThrew m, w1) \<Rightarrow> (None, w1)
                | (CodeReturned code, w1) \<Rightarrow>
                    if has_code code
                    then (Some a, logActivity userId ''SAFE_DEPLOYED'' a True (markDeployed userId a w1))
                    else (None, w1)))"

definition recoverAlreadyDeployed ::
  "wallet_env \<Rightarrow> string \<Rightarrow> string \<Rightarrow> world \<Rightarrow> string option \<times> world" where
  "recoverAlreadyDeployed env userId errorMessage w =
     (case getUserWallet w userId of
        Inl e \<Rightarrow> (None, w)
      | Inr walletAddress \<Rightarrow>
          if \<not> getBuilderConfig env then (None, w)
          else
            (case (case match_address errorMessage of
                     Some a \<Rightarrow> (Some a, w)
                   | None \<Rightarrow> retryDeployForAddress env w) of
               (found, w1) \<Rightarrow>
                 persistRecovered env userId
                   (if truthy found then found else getPredictedSafeAddress env walletAddress) w1))"

definition deployCatchOuter ::
  "wallet_env \<Rightarrow> string \<Rightarrow> string \<Rightarrow> world \<Rightarrow> (string + string) \<times> world" where
  "deployCatchOuter env userId errorMessage w =
     (if alreadyDeployedMessage errorMessage
      then (case recoverAlreadyDeployed env userId errorMessage w of
              (Some a, w1) \<Rightarrow> (Inr a, w1)
            | (None, w1) \<Rightarrow> (Inl errorMessage, setUserStatus userId CREATED w1))
      else (Inl errorMessage, setUserStatus userId CREATED w))"

text \<open>
  \<open>deploySafeWallet\<close>: an account recorded as deployed, with its address, is answered
  from the record; otherwise the status becomes SAFE_DEPLOYING and the \<open>try\<close> block runs.
\<close>

definition deploySafeWallet :: "wallet_env \<Rightarrow> string \<Rightarrow> world \<Rightarrow> (string + string) \<times> world" where
  "deploySafeWallet env userId w =
     (case findUser w userId of
        None \<Rightarrow> (Inl ''User not found'', w)
      | Some usr \<Rightarrow>
          (case (if u_safeDeployed usr \<and> truthy (u_safeAddress usr)
                 then u_safeAddress usr else None) of
             Some a \<Rightarrow> (Inr a, w)
           | None \<Rightarrow>
               (case deploySafeWallet_try env userId (setUserStatus userId SAFE_DEPLOYING w) of
                  (Inr a, w1) \<Rightarrow> (Inr a, w1)
                | (Inl e, w1) \<Rightarrow> deployCatchOuter env userId e w1)))"

section \<open>WalletService.createApiCredentials\<close>

text \<open>
  The credentials in an answer of the order book: \<open>apiKey || key || ''\<close> and likewise
  for secret and passphrase; all three must be non-empty.
\<close>

definition extractCredentials :: "api_key_response option \<Rightarrow> (string \<times> string \<times> string) option" where
  "extractCredentials response =
     (case response of
        None \<Rightarrow> None
      | Some r \<Rightarrow>
          (let key = (case js_or (js_or (ak_apiKey r) (ak_key r)) (Some []) of
                        Some s \<Rightarrow> s | None \<Rightarrow> []);
               secret = (case js_or (js_or (ak_apiSecret r) (ak_secret r)) (Some []) of
                           Some s \<Rightarrow> s | None \<Rightarrow> []);
               passphrase = (case js_or (js_or (ak_apiPassphrase r) (ak_passphrase r)) (Some []) of
                               Some s \<Rightarrow> s | None \<Rightarrow> [])
           in if key \<noteq> [] \<and> secret \<noteq> [] \<and> passphrase \<noteq> []
              then Some (key, secret, passphrase) else None))"

text \<open>Derivation first; creation only when derivation gave no credentials.\<close>

definition obtainCredentials :: "wallet_env \<Rightarrow> world \<Rightarrow> (string \<times> string \<times> string) option \<times> world" where
  "obtainCredentials env w =
     (let w1 = emit ClobDeriveApiKey w;
          derived = (case clob_deriveApiKey env of
                       ApiKeyThrew e \<Rightarrow> None
                     | ApiKeyReturned r \<Rightarrow> extractCredentials r)
      in case derived of
           Some c \<Rightarrow> (Some c, w1)
         | None \<Rightarrow>
             (case clob_createApiKey env of
                ApiKeyThrew e \<Rightarrow> (None, emit ClobCreateApiKey w1)
              | ApiKeyReturned r \<Rightarrow> (extractCredentials r, emit ClobCreateApiKey w1)))"

text \<open>
  The check of the secret: decoding it may throw, which aborts the call; a decoded
  secret that encodes to a different text only produces a warning.
\<close>

definition validateSecret :: "wallet_env \<Rightarrow> string \<Rightarrow> world \<Rightarrow> (string + unit) \<times> world" where
  "validateSecret env secret w =
     (case buffer_from_base64 env secret of
        None \<Rightarrow> (Inl ''CLOB API returned invalid base64 secret - cannot proceed'', w)
      | Some decoded \<Rightarrow>
          if buffer_to_base64 env decoded \<noteq> secret
          then (Inr (), emit (ConsoleWarn ''WARNING: Secret re-encoded differently!'') w)
          else (Inr (), w))"

definition storeApiCredentials ::
  "string \<Rightarrow> string \<times> string \<times> string \<Rightarrow> world \<Rightarrow> world" where
  "storeApiCredentials userId credentials w =
     (case credentials of
        (key, secret, passphrase) \<Rightarrow>
          updateUser userId
            (\<lambda>u. u\<lparr>u_encryptedApiKey := Some key,
                   u_encryptedApiSecret := Some secret,
                   u_encryptedApiPassphrase := Some passphrase\<rparr>) w)"

text \<open>The body of the \<open>try\<close> block of \<open>createApiCredentials\<close>.\<close>

definition createApiCredentials_try ::
  "wallet_env \<Rightarrow> string \<Rightarrow> world \<Rightarrow> (string + unit) \<times> world" where
  "createApiCredentials_try env userId w =
     (case getUserWallet w userId of
        Inl e \<Rightarrow> (Inl e, w)
      | Inr walletAddress \<Rightarrow>
          (case obtainCredentials env w of
             (None, w1) \<Rightarrow>
               (Inl (''Failed to obtain CLOB API credentials - both derive and create failed. ''
                     @ ''The wallet may have too many existing API keys on Polymarket.''), w1)
           | (Some credentials, w1) \<Rightarrow>
               (case validateSecret env (fst (snd credentials)) w1 of
                  (Inl e, w2) \<Rightarrow> (Inl e, w2)
                | (Inr u, w2) \<Rightarrow>
                    (Inr (),
                     logActivity userId ''API_CREDENTIALS_CREATED'' userId True
                       (setUserStatus userId READY
                          (storeApiCredentials userId credentials w2))))))"

text \<open>
  \<open>createApiCredentials\<close>: the account must have a contract-account address; the status
  becomes SETTING_UP, and a failure of the \<open>try\<close> block sets it to SAFE_DEPLOYED and
  throws the error again.
\<close>

definition createApiCredentials :: "wallet_env \<Rightarrow> string \<Rightarrow> world \<Rightarrow> (string + unit) \<times> world" where
  "createApiCredentials env userId w =
     (case findUser w userId of
        None \<Rightarrow> (Inl ''User not found'', w)
      | Some usr \<Rightarrow>
          if \<not> truthy (u_safeAddress usr)
          then (Inl ''Safe wallet not deployed - deploy Safe first before creating credentials'', w)
          else (case createApiCredentials_try env userId (setUserStatus userId SETTING_UP w) of
                  (Inr u, w1) \<Rightarrow> (Inr (), w1)
                | (Inl e, w1) \<Rightarrow> (Inl e, setUserStatus userId SAFE_DEPLOYED w1)))"

section \<open>The base64 codec of the platform\<close>

text \<open>
  The decoder of the platform accepts the standard and the URL-safe alphabet, stops at
  the first padding character, skips every other character and never throws; the
  encoder writes the standard alphabet with padding. Bytes are numbers below 256.
\<close>

fun index_of :: "char \<Rightarrow> string \<Rightarrow> nat option" where
  "index_of c [] = None"
| "index_of c (x # xs) =
     (if c = x then Some 0 else (case index_of c xs of None \<Rightarrow> None | Some n \<Rightarrow> Some (Suc n)))"

definition base64_value :: "char \<Rightarrow> nat option" where
  "base64_value c =
     (if c = CHR ''-'' then Some 62 else if c = CHR ''_'' then Some 63
      else index_of c base64_alphabet)"

fun base64_values :: "string \<Rightarrow> nat list" where
  "base64_values [] = []"
| "base64_values (c # cs) =
     (if c = CHR ''='' then []
      else (case base64_value c of
              None \<Rightarrow> base64_values cs
            | Some v \<Rightarrow> v # base64_values cs))"

fun base64_bytes :: "nat list \<Rightarrow> nat list" where
  "base64_bytes (a # b # c # d # vs) =
     (a * 4 + b div 16) # ((b mod 16) * 16 + c div 4) # ((c mod 4) * 64 + d) # base64_bytes vs"
| "base64_bytes [a, b, c] = [a * 4 + b div 16, (b mod 16) * 16 + c div 4]"
| "base64_bytes [a, b] = [a * 4 + b div 16]"
| "base64_bytes vs = []"

definition node_from_base64 :: "string \<Rightarrow> nat list option" where
  "node_from_base64 s = Some (base64_bytes (base64_values s))"

definition base64_char :: "nat \<Rightarrow> char" where
  "base64_char v = base64_alphabet ! (v mod 64)"

fun node_to_base64 :: "nat list \<Rightarrow> string" where
  "node_to_base64 (x # y # z # bs) =
     base64_char (x div 4) # base64_char ((x mod 4) * 16 + y div 16)
     # base64_char ((y mod 16) * 4 + z div 64) # base64_char (z mod 64) # node_to_base64 bs"
| "node_to_base64 [x, y] =
     [base64_char (x div 4), base64_char ((x mod 4) * 16 + y div 16),
      base64_char ((y mod 16) * 4), CHR ''='']"
| "node_to_base64 [x] =
     [base64_char (x div 4), base64_char ((x mod 4) * 16), CHR ''='', CHR ''='']"
| "node_to_base64 [] = []"

section \<open>Lifecycle of the account status, and the schedule of retries\<close>

text \<open>
  The statuses in their forward order; a move is allowed when it does not go back, or
  is one of the two reverts. The statuses written for a user are read off the trace.
\<close>

fun status_rank :: "UserStatus \<Rightarrow> nat" where
  "status_rank CREATED = 0"
| "status_rank SAFE_DEPLOYING = 1"
| "status_rank SAFE_DEPLOYED = 2"
| "status_rank SETTING_UP = 3"
| "status_rank READY = 4"

definition allowed_move :: "UserStatus \<Rightarrow> UserStatus \<Rightarrow> bool" where
  "allowed_move s t =
     (status_rank s \<le> status_rank t
      \<or> (s = SAFE_DEPLOYING \<and> t = CREATED)
      \<or> (s = SETTING_UP \<and> t = SAFE_DEPLOYED))"

fun allowed_path :: "UserStatus list \<Rightarrow> bool" where
  "allowed_path (s # t # ss) = (allowed_move s t \<and> allowed_path (t # ss))"
| "allowed_path ss = True"

fun status_writes :: "string \<Rightarrow> event list \<Rightarrow> UserStatus list" where
  "status_writes uid [] = []"
| "status_writes uid (StatusWrite u s # es) =
     (if u = uid then s # status_writes uid es else status_writes uid es)"
| "status_writes uid (e # es) = status_writes uid es"

definition userStatus :: "world \<Rightarrow> string \<Rightarrow> UserStatus option" where
  "userStatus w uid = map_option u_status (findUser w uid)"

definition transient :: "UserStatus option \<Rightarrow> bool" where
  "transient s = (s = Some SAFE_DEPLOYING \<or> s = Some SETTING_UP)"

text \<open>
  The deployment calls and the waits of a trace, and the schedule of \<open>k\<close> attempts with
  a wait of \<open>1000 * 2 ^ j\<close> milliseconds after attempt \<open>j\<close>.
\<close>

definition deploy_events :: "event list \<Rightarrow> event list" where
  "deploy_events es = filter (\<lambda>e. is_deploy e \<or> is_sleep e) es"


text \<open>
  What a part of the deployment does to the account \<open>uid\<close>: when it ends the call with
  success it has written SAFE_DEPLOYED once and the account has that status; otherwise
  it has written no status and the user table is as before.
\<close>

definition deploy_step :: "string \<Rightarrow> world \<Rightarrow> world \<Rightarrow> bool \<Rightarrow> bool" where
  "deploy_step uid w w' ok =
     (if ok
      then status_writes uid (trace w') = status_writes uid (trace w) @ [SAFE_DEPLOYED]
           \<and> userStatus w' uid = (if findUser w uid = None then None else Some SAFE_DEPLOYED)
      else status_writes uid (trace w') = status_writes uid (trace w) \<and> users w' = users w)"

fun is_returned :: "loop_flow \<Rightarrow> bool" where
  "is_returned (Returned a) = True"
| "is_returned f = False"


text \<open>
  The deployment calls and waits of the loop from attempt \<open>a\<close> to its last attempt
  \<open>k\<close>, as the code schedules them: a wait of \<open>j * 2000\<close> milliseconds after every
  attempt \<open>j\<close> but the last.
\<close>

definition schedule_from :: "nat \<Rightarrow> nat \<Rightarrow> event list" where
  "schedule_from a k =
     concat (map (\<lambda>j. RelayDeploy # (if j < k then [Sleep (j * 2000)] else [])) [a..<Suc k])"

definition transactionID_of :: "deploy_vars \<Rightarrow> string option" where
  "transactionID_of vars = (case dv_response vars of None \<Rightarrow> None | Some r \<Rightarrow> dr_transactionID r)"

section \<open>Concrete inputs\<close>

definition ex_user :: user where
  "ex_user = \<lparr>u_id = ''u1'', u_externalId = ''ext1'', u_eoaAddress = ''0xe0a'', u_safeAddress = Some ''0x5afe'',
     u_safeDeployed = True, u_status = READY, u_encryptedPrivateKey = Some ''k'',
     u_encryptedApiKey = Some ''a'', u_encryptedApiSecret = Some ''c2Vj'',
     u_encryptedApiPassphrase = Some ''p''\<rparr>"

definition ex_world :: world where
  "ex_world = \<lparr>users = [ex_user], orders = [], activityLog = [], transactions = [],
     marketNegRiskCache = Map.empty, trace = []\<rparr>"

definition ok_response :: "string \<Rightarrow> response" where
  "ok_response cid = \<lparr>r_error = None, r_message = None, r_status = None,
     r_orderID = Some cid, r_orderId = None, r_id = None\<rparr>"

definition ex_env :: clob_env where
  "ex_env = \<lparr>clob_postOrder = (\<lambda>n. PostReturned (Some (ok_response ''0xabc''))),
     clob_getOrder = (\<lambda>n. GetThrew), clob_cancelOrder = (\<lambda>n. True),
     fetch_clob_market = (\<lambda>c. ClobFetchOk False), fetch_gamma_market = (\<lambda>t. GammaFetchNotOk),
     parseFloat = (\<lambda>s. None), json_stringify = (\<lambda>r. case r_error r of Some e \<Rightarrow> e | None \<Rightarrow> []),
     new_order_id = (\<lambda>n. replicate (Suc n) CHR ''o'')\<rparr>"

definition ex_params :: "rat \<Rightarrow> CreateOrderParams" where
  "ex_params pr = \<lparr>p_userId = ''u1'', p_conditionId = ''cond'', p_tokenId = ''tok'',
     p_side = BUY, p_price = pr, p_size = 10, p_orderType = None, p_expiration = None\<rparr>"

definition filled_order :: order where
  "filled_order = \<lparr>o_id = ''o1'', o_userId = ''u1'', o_conditionId = ''cond'', o_tokenId = ''tok'',
     o_side = BUY, o_price = 0.45, o_size = 10, o_orderType = GTC, o_expiration = None,
     o_status = FILLED, o_clobOrderId = Some ''0xabc'', o_statusMessage = None,
     o_filledSize = None\<rparr>"

definition filled_world :: world where
  "filled_world = ex_world\<lparr>orders := [filled_order]\<rparr>"

definition no_id_response :: response where
  "no_id_response = \<lparr>r_error = None, r_message = None, r_status = None,
     r_orderID = None, r_orderId = Some [], r_id = None\<rparr>"

definition no_id_env :: clob_env where
  "no_id_env = ex_env\<lparr>clob_postOrder := (\<lambda>n. PostReturned (Some no_id_response))\<rparr>"

definition null_env :: clob_env where
  "null_env = ex_env\<lparr>clob_postOrder := (\<lambda>n. PostReturned None)\<rparr>"

definition status_400_response :: response where
  "status_400_response = \<lparr>r_error = None, r_message = None, r_status = Some 400,
     r_orderID = Some ''0xabc'', r_orderId = None, r_id = None\<rparr>"

definition status_400_env :: clob_env where
  "status_400_env = ex_env\<lparr>clob_postOrder := (\<lambda>n. PostReturned (Some status_400_response)),
     json_stringify := (\<lambda>r. ''{status:400,orderID:0xabc}'')\<rparr>"

definition retry_env :: clob_env where
  "retry_env = ex_env\<lparr>clob_postOrder :=
     (\<lambda>n. if n = 0 then PostThrew ''not enough balance''
          else PostReturned (Some (ok_response ''0xabc'')))\<rparr>"

definition tick_env :: clob_env where
  "tick_env = ex_env\<lparr>clob_postOrder := (\<lambda>n. PostThrew ''MIN_TICK_SIZE'')\<rparr>"

definition batch_order :: "string \<Rightarrow> AtomicOrderInput" where
  "batch_order tok = \<lparr>ai_tokenId = tok, ai_conditionId = None, ai_marketId = None,
     ai_side = BUY, ai_price = 0.45, ai_size = 10, ai_orderType = None\<rparr>"

definition batch3_req :: AtomicRequest where
  "batch3_req = \<lparr>rq_orders = [batch_order ''t0'', batch_order ''t1'', batch_order ''t2''],
     rq_userId = Some ''u1'', rq_apiKey = None\<rparr>"

definition batch2_req :: AtomicRequest where
  "batch2_req = \<lparr>rq_orders = [batch_order ''t0'', batch_order ''t1''],
     rq_userId = Some ''u1'', rq_apiKey = None\<rparr>"

definition second_fails_env :: clob_env where
  "second_fails_env = ex_env\<lparr>clob_postOrder :=
     (\<lambda>n. if n = 1 then PostThrew ''rejected''
          else PostReturned (Some (ok_response (replicate (Suc n) CHR ''c'')))),
     clob_cancelOrder := (\<lambda>n. False)\<rparr>"

definition no_keys :: "string \<Rightarrow> string option" where
  "no_keys k = None"

definition ok_creds :: api_key_response where
  "ok_creds = \<lparr>ak_apiKey = Some ''key'', ak_key = None, ak_apiSecret = Some ''ab-_'',
     ak_secret = None, ak_apiPassphrase = Some ''pass'', ak_passphrase = None\<rparr>"

definition ex_wenv :: wallet_env where
  "ex_wenv = \<lparr>relay_deploy = (\<lambda>n. DeployThrew ''fetch failed''),
     relay_pollUntilState = (\<lambda>t. PollReturned None),
     provider_getCode = (\<lambda>n a. CodeReturned ''0x''),
     getPredictedSafeAddress = (\<lambda>a. Some ''0x9red''),
     builder_apiKey = Some ''bk'', builder_secret = Some ''bs'', builder_passphrase = Some ''bp'',
     clob_deriveApiKey = ApiKeyThrew ''Could not derive api key!'',
     clob_createApiKey = ApiKeyReturned (Some ok_creds),
     buffer_from_base64 = node_from_base64, buffer_to_base64 = node_to_base64\<rparr>"

definition rpc_down_env :: wallet_env where
  "rpc_down_env = ex_wenv\<lparr>provider_getCode := (\<lambda>n a. CodeThrew ''could not detect network'')\<rparr>"

definition throwing_codec_env :: wallet_env where
  "throwing_codec_env = ex_wenv\<lparr>buffer_from_base64 := (\<lambda>s. None)\<rparr>"

definition fresh_user :: user where
  "fresh_user = \<lparr>u_id = ''u2'', u_externalId = ''ext2'', u_eoaAddress = ''0xe0b'',
     u_safeAddress = None, u_safeDeployed = False, u_status = CREATED,
     u_encryptedPrivateKey = Some ''k'', u_encryptedApiKey = None,
     u_encryptedApiSecret = None, u_encryptedApiPassphrase = None\<rparr>"

definition deployed_user :: user where
  "deployed_user = fresh_user\<lparr>u_id := ''u3'', u_externalId := ''ext3'',
     u_safeAddress := Some ''0x5afe'', u_safeDeployed := True, u_status := SAFE_DEPLOYED\<rparr>"

definition wallet_world :: world where
  "wallet_world = \<lparr>users = [ex_user, fresh_user, deployed_user], orders = [], activityLog = [],
     transactions = [], marketNegRiskCache = Map.empty, trace = []\<rparr>"

section \<open>Helper facts\<close>

lemmas ex_defs = ex_params_def ex_world_def ex_env_def ex_user_def ok_response_def
  filled_world_def filled_order_def no_id_env_def no_id_response_def retry_env_def tick_env_def

lemmas secret_defs = standard_base64_def convertSecret_def pad4_def to_standard_def
  is_space_def base64_alphabet_def

lemmas model_defs = createOrder_def Let_def findUser_def secret_defs
  truthy_def createOrder_try_def updateOrder_def newOrder_def getUserWallet_def
  getApiCredentials_def isNegRiskMarket_def emit_def cache_set_def submitOrder_def
  attemptOrder_def checkOrderResponse_def count_events_def recordResponse_def
  extract_clobOrderId_def js_or_def logActivity_def has_expiration_def reaches_submission_def

lemma count_post_updateOrder [simp]: "count_events P (updateOrder oid f w) = count_events P w"
  by (simp add: count_events_def updateOrder_def)

lemma fst_submitOrder_cong:
  "count_events is_post w = count_events is_post w' \<Longrightarrow>
   fst (submitOrder env c t f w) = fst (submitOrder env c t f w')"
  by (simp add: submitOrder_def attemptOrder_def count_events_def emit_def split: sum.splits)

lemma isNegRisk_fst_cong:
  "marketNegRiskCache w = marketNegRiskCache w' \<Longrightarrow>
   fst (isNegRiskMarket env c t w) = fst (isNegRiskMarket env c t w')"
  by (simp add: isNegRiskMarket_def Let_def split: option.splits clob_fetch.splits gamma_fetch.splits list.splits)

lemma isNegRisk_posts:
  "filter is_post (trace (snd (isNegRiskMarket env c t w))) = filter is_post (trace w)"
  by (simp add: isNegRiskMarket_def Let_def emit_def cache_set_def split: option.splits clob_fetch.splits gamma_fetch.splits list.splits)

lemma isNegRisk_orders:
  "orders (snd (isNegRiskMarket env c t w)) = orders w"
  by (simp add: isNegRiskMarket_def Let_def emit_def cache_set_def split: option.splits clob_fetch.splits gamma_fetch.splits list.splits)

lemma submitOrder_orders:
  "orders (snd (submitOrder env c t f w)) = orders w"
  by (simp add: submitOrder_def attemptOrder_def emit_def cache_set_def split: sum.splits)

lemma users_updateOrder [simp]: "users (updateOrder oid f w) = users w"
  by (simp add: updateOrder_def)

lemma cache_updateOrder [simp]: "marketNegRiskCache (updateOrder oid f w) = marketNegRiskCache w"
  by (simp add: updateOrder_def)

lemma trace_updateOrder [simp]: "trace (updateOrder oid f w) = trace w"
  by (simp add: updateOrder_def)

lemma orders_logActivity [simp]: "orders (logActivity u a r b w) = orders w"
  by (simp add: logActivity_def)

lemma trace_logActivity [simp]: "trace (logActivity u a r b w) = trace w"
  by (simp add: logActivity_def)

lemma cache_logActivity [simp]: "marketNegRiskCache (logActivity u a r b w) = marketNegRiskCache w"
  by (simp add: logActivity_def)

lemma last_updateOrder:
  "orders w \<noteq> [] \<Longrightarrow> o_id (last (orders w)) = oid \<Longrightarrow>
   last (orders (updateOrder oid f w)) = f (last (orders w))"
  by (simp add: updateOrder_def last_map)

lemma length_updateOrder [simp]: "length (orders (updateOrder oid f w)) = length (orders w)"
  by (simp add: updateOrder_def)

lemma wallet_cong: "users w = users w' \<Longrightarrow> getUserWallet w u = getUserWallet w' u"
  by (simp add: getUserWallet_def findUser_def)

lemma creds_cong: "users w = users w' \<Longrightarrow> getApiCredentials w u = getApiCredentials w' u"
  by (simp add: getApiCredentials_def findUser_def)

lemma reaches_wallet: "reaches_submission p w \<Longrightarrow> \<exists>a. getUserWallet w (p_userId p) = Inr a"
  by (cases "getUserWallet w (p_userId p)") (simp_all add: reaches_submission_def)

lemma reaches_creds: "reaches_submission p w \<Longrightarrow> \<exists>c. getApiCredentials w (p_userId p) = Inr c"
  by (cases "getApiCredentials w (p_userId p)") (auto simp add: reaches_submission_def)

lemma createOrder_reaches:
  assumes "reaches_submission p w"
  shows "createOrder env p w =
     (case createOrder_try env p (new_order_id env (length (orders w))) (pending_world env p w) of
        (Inr r, w2) \<Rightarrow> (Inr r, w2)
      | (Inl e, w2) \<Rightarrow>
          (Inl e, logActivity (p_userId p) ''ORDER_FAILED'' (new_order_id env (length (orders w))) False
             (updateOrder (new_order_id env (length (orders w)))
                (\<lambda>x. x\<lparr>o_status := FAILED, o_statusMessage := Some e\<rparr>) w2)))"
  using assms
  by (auto simp add: createOrder_def reaches_submission_def Let_def pending_world_def split: option.splits)

lemma createOrder_try_reaches:
  assumes "reaches_submission p w"
  shows "createOrder_try env p oid (pending_world env p w) =
     (let w1 = updateOrder oid (\<lambda>x. x\<lparr>o_status := SUBMITTING\<rparr>) (pending_world env p w);
          nr = isNegRiskMarket env (p_conditionId p) (p_tokenId p) w1;
          sb = submitOrder env (p_conditionId p) (p_tokenId p) (fst nr) (snd nr)
      in case fst sb of Inl e \<Rightarrow> (Inl e, snd sb)
         | Inr resp \<Rightarrow> recordResponse (p_userId p) oid resp (snd sb))"
proof -
  have u: "users (updateOrder oid (\<lambda>x. x\<lparr>o_status := SUBMITTING\<rparr>) (pending_world env p w)) = users w"
    by (simp add: pending_world_def)
  obtain a where a: "getUserWallet w (p_userId p) = Inr a" using reaches_wallet [OF assms] by blast
  obtain c where c: "getApiCredentials w (p_userId p) = Inr c"
    using reaches_creds [OF assms] by blast
  show ?thesis
    unfolding createOrder_try_def Let_def
    by (simp add: wallet_cong [OF u] creds_cong [OF u] a c case_prod_beta split: sum.splits)
qed

lemma extract_truthy: "extract_clobOrderId r = Some cid \<Longrightarrow> cid \<noteq> []"
  by (auto simp add: extract_clobOrderId_def js_or_def truthy_def split: if_splits option.splits)

lemma recordResponse_orders:
  "orders w \<noteq> [] \<Longrightarrow> o_id (last (orders w)) = oid \<Longrightarrow>
   recordResponse u oid resp w = (res, w') \<Longrightarrow>
   length (orders w') = length (orders w) \<and> o_id (last (orders w')) = oid \<and>
   (case res of
      Inr r \<Rightarrow> o_status (last (orders w')) = LIVE
               \<and> (\<exists>x. resp = Some x \<and> extract_clobOrderId x \<noteq> None)
    | Inl e \<Rightarrow> \<not> (\<exists>x. resp = Some x \<and> extract_clobOrderId x \<noteq> None))"
  by (auto simp add: recordResponse_def last_updateOrder dest: extract_truthy
           split: option.splits if_splits)

lemma submission_state_flag:
  "fst (submission_state env p w) = fst (isNegRiskMarket env (p_conditionId p) (p_tokenId p) w)"
  unfolding submission_state_def
  by (rule isNegRisk_fst_cong) (simp add: pending_world_def)

lemma submission_state_posts:
  "filter is_post (trace (snd (submission_state env p w))) = filter is_post (trace w)"
  by (simp add: submission_state_def isNegRisk_posts pending_world_def)

lemma trace_recordResponse: "trace (snd (recordResponse u oid resp w)) = trace w"
  by (simp add: recordResponse_def split: option.splits)

lemma cache_recordResponse:
  "marketNegRiskCache (snd (recordResponse u oid resp w)) = marketNegRiskCache w"
  by (simp add: recordResponse_def split: option.splits)

lemma createOrder_decompose:
  assumes "reaches_submission p w"
  shows "createOrder env p w =
     (let oid = new_order_id env (length (orders w));
          ss = submission_state env p w;
          sb = submitOrder env (p_conditionId p) (p_tokenId p) (fst ss) (snd ss);
          failed = (\<lambda>e w2. (Inl e, logActivity (p_userId p) ''ORDER_FAILED'' oid False
                      (updateOrder oid (\<lambda>x. x\<lparr>o_status := FAILED, o_statusMessage := Some e\<rparr>) w2)))
      in case fst sb of
           Inl e \<Rightarrow> failed e (snd sb)
         | Inr resp \<Rightarrow>
             (case fst (recordResponse (p_userId p) oid resp (snd sb)) of
                Inl e \<Rightarrow> failed e (snd (recordResponse (p_userId p) oid resp (snd sb)))
              | Inr r \<Rightarrow> (Inr r, snd (recordResponse (p_userId p) oid resp (snd sb)))))"
  unfolding submission_state_def
  by (simp add: createOrder_reaches [OF assms] createOrder_try_reaches [OF assms] Let_def
           case_prod_beta split: sum.splits)

lemma createOrder_trace_cache:
  assumes "reaches_submission p w"
  shows "trace (snd (createOrder env p w)) =
           trace (snd (submitOrder env (p_conditionId p) (p_tokenId p)
                    (fst (submission_state env p w)) (snd (submission_state env p w))))
       \<and> marketNegRiskCache (snd (createOrder env p w)) =
           marketNegRiskCache (snd (submitOrder env (p_conditionId p) (p_tokenId p)
                    (fst (submission_state env p w)) (snd (submission_state env p w))))"
  by (simp add: createOrder_decompose [OF assms] Let_def trace_recordResponse cache_recordResponse
           split: sum.splits)

lemma trace_cache_set [simp]: "trace (cache_set c b w) = trace w"
  by (simp add: cache_set_def)

lemma submitOrder_retried:
  assumes "checkOrderResponse env (clob_postOrder env (count_events is_post w)) = Inl errorMsg"
      and "balance_allowance_error errorMsg" and "\<not> corrupted_credentials_error errorMsg"
      and "\<not> invalid_signature_error errorMsg" and "\<not> tick_size_error errorMsg"
  shows "trace (snd (submitOrder env c t f w)) = trace w @ [ClobPostOrder t f, ClobPostOrder t (\<not> f)]"
    and "checkOrderResponse env (clob_postOrder env (Suc (count_events is_post w))) = Inr resp \<Longrightarrow>
         fst (submitOrder env c t f w) = Inr resp \<and>
         marketNegRiskCache (snd (submitOrder env c t f w)) c = Some (\<not> f)"
  using assms
  by (simp_all add: submitOrder_def attemptOrder_def emit_def count_events_def cache_set_def
        split: sum.splits)

lemma submitOrder_not_retried:
  assumes "checkOrderResponse env (clob_postOrder env (count_events is_post w)) = Inl errorMsg"
      and "corrupted_credentials_error errorMsg \<or> invalid_signature_error errorMsg
           \<or> tick_size_error errorMsg"
  shows "trace (snd (submitOrder env c t f w)) = trace w @ [ClobPostOrder t f]
         \<and> isl (fst (submitOrder env c t f w))"
  using assms
  by (auto simp add: submitOrder_def attemptOrder_def emit_def count_events_def)

lemma checkOrderResponse_passes:
  "checkOrderResponse env a = Inr (Some r) \<longleftrightarrow>
     a = PostReturned (Some r) \<and> \<not> truthy (r_error r)
     \<and> r_status r \<noteq> Some 400 \<and> r_status r \<noteq> Some 422"
  by (auto simp add: checkOrderResponse_def split: post_result.splits option.splits if_splits)

lemma submitOrder_final:
  "count_events is_post w < count_events is_post (snd (submitOrder env c t f w))
   \<and> (case fst (submitOrder env c t f w) of
        Inr resp \<Rightarrow>
          checkOrderResponse env
            (clob_postOrder env (count_events is_post (snd (submitOrder env c t f w)) - 1)) = Inr resp
      | Inl e \<Rightarrow>
          isl (checkOrderResponse env
            (clob_postOrder env (count_events is_post (snd (submitOrder env c t f w)) - 1))))"
  by (simp add: submitOrder_def attemptOrder_def emit_def count_events_def cache_set_def
        split: sum.splits)

section \<open>Properties of the order service\<close>

text \<open>
  C10. A cancel request for an order whose recorded status is not LIVE throws: the
  result is an error and the world is the one before the call, so no remote read or
  cancel has been issued and the order record is unchanged. The order is any order the
  lookup finds, with or without a remote identifier.
\<close>

theorem cancelOrder_not_live_rejected:
  assumes "lookupOrder w orderId = Some ord" and "o_status ord \<noteq> LIVE"
  shows "\<exists>msg. cancelOrder env userId orderId w = (Inl msg, w)"
  using assms by (simp add: cancelOrder_def split: option.splits)

theorem cancelOrder_not_live_rejected_witness:
  "lookupOrder filled_world ''0xabc'' = Some filled_order \<and> o_status filled_order \<noteq> LIVE \<and>
   o_clobOrderId filled_order = Some ''0xabc'' \<and>
   cancelOrder ex_env ''u1'' ''0xabc'' filled_world =
     (Inl ''Cannot cancel order with status: FILLED'', filled_world)"
proof -
  have a: "lookupOrder filled_world ''0xabc'' = Some filled_order"
    by (simp add: lookupOrder_def findOrder_def findOrderByClobId_def ex_defs)
  have b: "o_status filled_order \<noteq> LIVE" by (simp add: filled_order_def)
  show ?thesis using a b cancelOrder_not_live_rejected [OF a b, of ex_env "''u1''"]
    by (simp add: filled_order_def cancelOrder_def)
qed

text \<open>
  C5, as the code has it. A price below 0.01 or above 0.99, a size that is not positive,
  or a GTD order without expiration is rejected with one of the three validation errors
  and an unchanged world: nothing is persisted and no remote call is made. The bounds
  0.01 and 0.99 themselves are accepted.
\<close>

theorem createOrder_rejects_invalid:
  assumes "p_price p < 0.01 \<or> p_price p > 0.99 \<or> p_size p \<le> 0
           \<or> (p_orderType p = Some GTD \<and> \<not> has_expiration (p_expiration p))"
  shows "createOrder env p w = (Inl ''Price must be between 0.01 and 0.99'', w)
         \<or> createOrder env p w = (Inl ''Size must be positive'', w)
         \<or> createOrder env p w = (Inl ''GTD orders require an expiration timestamp'', w)"
  using assms by (auto simp add: createOrder_def Let_def)

theorem createOrder_rejects_invalid_witness: "p_price (ex_params 0.995) > 0.99 \<and>
   createOrder ex_env (ex_params 0.995) ex_world = (Inl ''Price must be between 0.01 and 0.99'', ex_world)"
proof -
  have h: "p_price (ex_params 0.995) < 0.01 \<or> p_price (ex_params 0.995) > 0.99 \<or> p_size (ex_params 0.995) \<le> 0
           \<or> (p_orderType (ex_params 0.995) = Some GTD \<and> \<not> has_expiration (p_expiration (ex_params 0.995)))"
    by (simp add: ex_params_def)
  show ?thesis using createOrder_rejects_invalid [OF h, of ex_env ex_world]
    by (simp add: ex_params_def createOrder_def)
qed

text \<open>
  The price 0.01 is not inside the open interval from 0.01 to 0.99, and yet the order is
  submitted and becomes LIVE.
\<close>

theorem createOrder_price_bound_accepted:
  "\<not> (0.01 < p_price (ex_params 0.01) \<and> p_price (ex_params 0.01) < 0.99) \<and>
   fst (createOrder ex_env (ex_params 0.01) ex_world) =
     Inr \<lparr>res_orderId = ''o'', res_clobOrderId = Some ''0xabc'', res_status = LIVE,
          res_message = None\<rparr> \<and>
   trace (snd (createOrder ex_env (ex_params 0.01) ex_world)) =
     [FetchClobMarket ''cond'', ClobPostOrder ''tok'' False]"
  by (simp add: ex_defs model_defs)

text \<open>
  C3, as the code has it. A call that reaches the remote submission posts the order at
  least once, and the answer to its last posting decides: the record the call creates
  (the last one of the table) ends LIVE exactly when that answer is a returned payload
  that is not error-shaped (no \<open>error\<close> field, status neither 400 nor 422) and carries an
  order id; the record then holds that id and the call returns. In every other case,
  among them a payload without an id and a null payload of a remote call that returned,
  the record ends FAILED and the call throws.
\<close>

theorem createOrder_live_iff_remote_id:
  assumes "reaches_submission p w"
  shows "(let w' = snd (createOrder env p w);
              created = last (orders w');
              answer = clob_postOrder env (count_events is_post w' - 1)
          in length (orders w') = Suc (length (orders w))
           \<and> count_events is_post w < count_events is_post w'
           \<and> (o_status created = LIVE \<longleftrightarrow>
                (\<exists>r. answer = PostReturned (Some r) \<and> \<not> truthy (r_error r)
                     \<and> r_status r \<noteq> Some 400 \<and> r_status r \<noteq> Some 422
                     \<and> extract_clobOrderId r \<noteq> None))
           \<and> (o_status created = LIVE \<longrightarrow>
                (\<exists>r. answer = PostReturned (Some r)
                     \<and> o_clobOrderId created = extract_clobOrderId r)
                \<and> \<not> isl (fst (createOrder env p w)))
           \<and> (o_status created \<noteq> LIVE \<longrightarrow>
                o_status created = FAILED \<and> isl (fst (createOrder env p w))))"
proof -
  define oid where "oid = new_order_id env (length (orders w))"
  define w1 where "w1 = updateOrder oid (\<lambda>x. x\<lparr>o_status := SUBMITTING\<rparr>) (pending_world env p w)"
  define nr where "nr = isNegRiskMarket env (p_conditionId p) (p_tokenId p) w1"
  define sb where "sb = submitOrder env (p_conditionId p) (p_tokenId p) (fst nr) (snd nr)"
  define answer where "answer = clob_postOrder env (count_events is_post (snd sb) - 1)"
  have posts: "count_events is_post (snd nr) = count_events is_post w"
    by (simp add: count_events_def nr_def isNegRisk_posts w1_def pending_world_def)
  have fin: "count_events is_post w < count_events is_post (snd sb)"
      "case fst sb of Inr resp \<Rightarrow> checkOrderResponse env answer = Inr resp
                    | Inl e \<Rightarrow> isl (checkOrderResponse env answer)"
    using submitOrder_final [of "snd nr" env "p_conditionId p" "p_tokenId p" "fst nr"]
    unfolding sb_def answer_def posts by simp_all
  have ords: "orders (snd sb) = orders w1"
    by (simp add: sb_def nr_def submitOrder_orders isNegRisk_orders)
  have w1_len: "length (orders w1) = Suc (length (orders w))"
    by (simp add: w1_def pending_world_def)
  have w1_ne: "orders w1 \<noteq> []" using w1_len by auto
  have w1_last: "o_id (last (orders w1)) = oid"
    by (simp add: w1_def pending_world_def updateOrder_def newOrder_def oid_def)
  have co: "createOrder env p w =
     (case (case fst sb of Inl e \<Rightarrow> (Inl e, snd sb)
            | Inr resp \<Rightarrow> recordResponse (p_userId p) oid resp (snd sb)) of
        (Inr r, w2) \<Rightarrow> (Inr r, w2)
      | (Inl e, w2) \<Rightarrow>
          (Inl e, logActivity (p_userId p) ''ORDER_FAILED'' oid False
             (updateOrder oid (\<lambda>x. x\<lparr>o_status := FAILED, o_statusMessage := Some e\<rparr>) w2)))"
    unfolding oid_def w1_def nr_def sb_def
    by (simp add: createOrder_reaches [OF assms] createOrder_try_reaches [OF assms] Let_def)
  have goal: "length (orders w') = Suc (length (orders w))
           \<and> count_events is_post w < count_events is_post w'
           \<and> (o_status (last (orders w')) = LIVE \<longleftrightarrow>
                (\<exists>r. clob_postOrder env (count_events is_post w' - 1) = PostReturned (Some r)
                     \<and> \<not> truthy (r_error r)
                     \<and> r_status r \<noteq> Some 400 \<and> r_status r \<noteq> Some 422
                     \<and> extract_clobOrderId r \<noteq> None))
           \<and> (o_status (last (orders w')) = LIVE \<longrightarrow>
                (\<exists>r. clob_postOrder env (count_events is_post w' - 1) = PostReturned (Some r)
                     \<and> o_clobOrderId (last (orders w')) = extract_clobOrderId r)
                \<and> \<not> isl res)
           \<and> (o_status (last (orders w')) \<noteq> LIVE \<longrightarrow>
                o_status (last (orders w')) = FAILED \<and> isl res)"
    if run: "createOrder env p w = (res, w')" for res w'
  proof (cases "fst sb")
    case (Inl e)
    then have out: "res = Inl e"
        "w' = logActivity (p_userId p) ''ORDER_FAILED'' oid False
               (updateOrder oid (\<lambda>x. x\<lparr>o_status := FAILED, o_statusMessage := Some e\<rparr>) (snd sb))"
      using co run by simp_all
    have tr: "count_events is_post w' = count_events is_post (snd sb)"
      by (simp add: out count_events_def)
    have rej: "isl (checkOrderResponse env answer)" using fin(2) Inl by simp
    have no: "\<not> (\<exists>r. answer = PostReturned (Some r) \<and> \<not> truthy (r_error r)
                     \<and> r_status r \<noteq> Some 400 \<and> r_status r \<noteq> Some 422
                     \<and> extract_clobOrderId r \<noteq> None)"
      using rej by (auto simp add: checkOrderResponse_def split: if_splits)
    have st: "o_status (last (orders w')) = FAILED" "length (orders w') = Suc (length (orders w))"
      using w1_ne w1_last w1_len ords by (simp_all add: out last_updateOrder)
    show ?thesis
      using st no fin(1) out(1) unfolding tr answer_def [symmetric] by simp
  next
    case (Inr resp)
    obtain rres w'' where rr: "recordResponse (p_userId p) oid resp (snd sb) = (rres, w'')"
      by (cases "recordResponse (p_userId p) oid resp (snd sb)") auto
    have chk: "checkOrderResponse env answer = Inr resp" using fin(2) Inr by simp
    have f: "length (orders w'') = length (orders w1) \<and> o_id (last (orders w'')) = oid \<and>
       (case rres of
          Inr r \<Rightarrow> o_status (last (orders w'')) = LIVE
                   \<and> (\<exists>x. resp = Some x \<and> extract_clobOrderId x \<noteq> None)
        | Inl e \<Rightarrow> \<not> (\<exists>x. resp = Some x \<and> extract_clobOrderId x \<noteq> None))"
      using recordResponse_orders [of "snd sb" oid "p_userId p" resp rres w''] w1_ne w1_last ords rr
      by simp
    have ne: "orders w'' \<noteq> []" using f w1_len by auto
    have tr'': "trace w'' = trace (snd sb)"
      using trace_recordResponse [of "p_userId p" oid resp "snd sb"] rr by simp
    show ?thesis
    proof (cases rres)
      case (Inl e)
      have out: "res = Inl e"
          "w' = logActivity (p_userId p) ''ORDER_FAILED'' oid False
                 (updateOrder oid (\<lambda>x. x\<lparr>o_status := FAILED, o_statusMessage := Some e\<rparr>) w'')"
        using co \<open>fst sb = Inr resp\<close> rr Inl run by simp_all
      have tr: "count_events is_post w' = count_events is_post (snd sb)"
        by (simp add: out count_events_def tr'')
      have no: "\<not> (\<exists>r. answer = PostReturned (Some r) \<and> \<not> truthy (r_error r)
                     \<and> r_status r \<noteq> Some 400 \<and> r_status r \<noteq> Some 422
                     \<and> extract_clobOrderId r \<noteq> None)"
        using f Inl chk checkOrderResponse_passes [of env answer] by auto
      have st: "o_status (last (orders w')) = FAILED"
          "length (orders w') = Suc (length (orders w))"
        using f ne w1_len by (simp_all add: out last_updateOrder)
      show ?thesis
        using st no fin(1) out(1) unfolding tr answer_def [symmetric] by simp
    next
      case r: (Inr r)
      have out: "res = Inr r" "w' = w''"
        using co \<open>fst sb = Inr resp\<close> rr r run by simp_all
      have tr: "count_events is_post w' = count_events is_post (snd sb)"
        by (simp add: out count_events_def tr'')
      obtain x where x: "resp = Some x" "extract_clobOrderId x \<noteq> None"
        using f r by auto
      have a: "answer = PostReturned (Some x)" "\<not> truthy (r_error x)"
          "r_status x \<noteq> Some 400" "r_status x \<noteq> Some 422"
        using chk x(1) checkOrderResponse_passes [of env answer x] by simp_all
      have cid: "o_clobOrderId (last (orders w')) = extract_clobOrderId x"
        using rr x ne w1_ne w1_last ords unfolding out
        by (auto simp add: recordResponse_def last_updateOrder
              split: option.splits if_splits dest: extract_truthy)
      have st: "o_status (last (orders w')) = LIVE"
          "length (orders w') = Suc (length (orders w))"
        using f r w1_len by (simp_all add: out)
      show ?thesis
        using st a x(2) cid fin(1) out(1) unfolding tr answer_def [symmetric] by auto
    qed
  qed
  show ?thesis
    unfolding Let_def
    using goal [of "fst (createOrder env p w)" "snd (createOrder env p w)"] by simp
qed

theorem createOrder_live_iff_remote_id_witness:
  "reaches_submission (ex_params 0.45) ex_world
   \<and> o_status (last (orders (snd (createOrder ex_env (ex_params 0.45) ex_world)))) = LIVE
   \<and> o_clobOrderId (last (orders (snd (createOrder ex_env (ex_params 0.45) ex_world)))) =
       Some ''0xabc''
   \<and> o_status (last (orders (snd (createOrder no_id_env (ex_params 0.45) ex_world)))) = FAILED
   \<and> isl (fst (createOrder no_id_env (ex_params 0.45) ex_world))
   \<and> o_status (last (orders (snd (createOrder null_env (ex_params 0.45) ex_world)))) = FAILED
   \<and> isl (fst (createOrder null_env (ex_params 0.45) ex_world))"
proof -
  have h: "reaches_submission (ex_params 0.45) ex_world"
    by (simp add: ex_defs model_defs)
  have a: "clob_postOrder ex_env n = PostReturned (Some (ok_response ''0xabc''))" for n
    by (simp add: ex_env_def)
  have a': "extract_clobOrderId (ok_response ''0xabc'') = Some ''0xabc''"
      "\<not> truthy (r_error (ok_response ''0xabc''))" "r_status (ok_response ''0xabc'') = None"
    by (simp_all add: ex_defs model_defs)
  have b: "clob_postOrder no_id_env n = PostReturned (Some no_id_response)" for n
    by (simp add: no_id_env_def)
  have b': "extract_clobOrderId no_id_response = None"
    by (simp add: ex_defs model_defs)
  have c: "clob_postOrder null_env n = PostReturned None" for n
    by (simp add: null_env_def)
  show ?thesis
    using h createOrder_live_iff_remote_id [OF h, of ex_env]
      createOrder_live_iff_remote_id [OF h, of no_id_env]
      createOrder_live_iff_remote_id [OF h, of null_env]
    unfolding Let_def a b c using a' b' by auto
qed

text \<open>
  A payload that carries an order id beside the status 400: the call posts once, the
  record ends FAILED and the call throws.
\<close>

theorem createOrder_error_payload_with_id_failed:
  "clob_postOrder status_400_env 0 = PostReturned (Some status_400_response)
   \<and> r_orderID status_400_response = Some ''0xabc''
   \<and> reaches_submission (ex_params 0.45) ex_world
   \<and> filter is_post (trace (snd (createOrder status_400_env (ex_params 0.45) ex_world))) =
       [ClobPostOrder ''tok'' False]
   \<and> o_status (last (orders (snd (createOrder status_400_env (ex_params 0.45) ex_world)))) = FAILED
   \<and> isl (fst (createOrder status_400_env (ex_params 0.45) ex_world))"
  by (simp add: ex_defs model_defs status_400_env_def status_400_response_def
        balance_allowance_error_def corrupted_credentials_error_def
        invalid_signature_error_def tick_size_error_def)

text \<open>
  C4. When the first attempt is rejected with a balance or allowance error (and none of
  the tests that precede it in the code applies), the order is posted exactly twice, the
  second time under the opposite routing, and a second attempt that returns puts the
  opposite routing into the cache. A rejection that names corrupted credentials, an
  invalid signature or the tick size is posted once and thrown.
\<close>

theorem createOrder_routing_retry:
  assumes reach: "reaches_submission p w"
      and first: "checkOrderResponse env (clob_postOrder env (count_events is_post w)) = Inl errorMsg"
  shows "(balance_allowance_error errorMsg \<and> \<not> corrupted_credentials_error errorMsg
            \<and> \<not> invalid_signature_error errorMsg \<and> \<not> tick_size_error errorMsg \<longrightarrow>
          filter is_post (trace (snd (createOrder env p w))) =
            filter is_post (trace w) @
              [ClobPostOrder (p_tokenId p) (fst (isNegRiskMarket env (p_conditionId p) (p_tokenId p) w)),
               ClobPostOrder (p_tokenId p) (\<not> fst (isNegRiskMarket env (p_conditionId p) (p_tokenId p) w))]
          \<and> (\<forall>resp. checkOrderResponse env (clob_postOrder env (Suc (count_events is_post w))) = Inr resp \<longrightarrow>
                marketNegRiskCache (snd (createOrder env p w)) (p_conditionId p) =
                  Some (\<not> fst (isNegRiskMarket env (p_conditionId p) (p_tokenId p) w))))
       \<and> (corrupted_credentials_error errorMsg \<or> invalid_signature_error errorMsg
            \<or> tick_size_error errorMsg \<longrightarrow>
          filter is_post (trace (snd (createOrder env p w))) =
            filter is_post (trace w) @
              [ClobPostOrder (p_tokenId p) (fst (isNegRiskMarket env (p_conditionId p) (p_tokenId p) w))]
          \<and> isl (fst (createOrder env p w)))"
proof -
  define ss where "ss = submission_state env p w"
  define c where "c = p_conditionId p"
  define t where "t = p_tokenId p"
  have flag: "fst ss = fst (isNegRiskMarket env c t w)"
    by (simp add: ss_def c_def t_def submission_state_flag)
  have posts: "filter is_post (trace (snd ss)) = filter is_post (trace w)"
    by (simp add: ss_def submission_state_posts)
  have cnt: "count_events is_post (snd ss) = count_events is_post w"
    by (simp add: count_events_def posts)
  have first': "checkOrderResponse env (clob_postOrder env (count_events is_post (snd ss))) = Inl errorMsg"
    using first cnt by simp
  have tc: "trace (snd (createOrder env p w)) = trace (snd (submitOrder env c t (fst ss) (snd ss)))"
           "marketNegRiskCache (snd (createOrder env p w)) =
              marketNegRiskCache (snd (submitOrder env c t (fst ss) (snd ss)))"
    using createOrder_trace_cache [OF reach, of env] by (simp_all add: ss_def c_def t_def)
  have A: "filter is_post (trace (snd (createOrder env p w))) =
             filter is_post (trace w) @ [ClobPostOrder t (fst ss), ClobPostOrder t (\<not> fst ss)]
           \<and> (\<forall>resp. checkOrderResponse env (clob_postOrder env (Suc (count_events is_post w))) = Inr resp \<longrightarrow>
                marketNegRiskCache (snd (createOrder env p w)) c = Some (\<not> fst ss))"
    if "balance_allowance_error errorMsg" "\<not> corrupted_credentials_error errorMsg"
       "\<not> invalid_signature_error errorMsg" "\<not> tick_size_error errorMsg"
    using submitOrder_retried(1) [OF first' that, where c = c and t = t and f = "fst ss"]
          submitOrder_retried(2) [OF first' that, where c = c and t = t and f = "fst ss"]
          posts cnt
    by (simp add: tc)
  have B: "filter is_post (trace (snd (createOrder env p w))) =
             filter is_post (trace w) @ [ClobPostOrder t (fst ss)]"
    if "corrupted_credentials_error errorMsg \<or> invalid_signature_error errorMsg
        \<or> tick_size_error errorMsg"
    using submitOrder_not_retried [OF first' that, where c = c and t = t and f = "fst ss"] posts
    by (simp add: tc)
  have C: "isl (fst (createOrder env p w))"
    if "corrupted_credentials_error errorMsg \<or> invalid_signature_error errorMsg
        \<or> tick_size_error errorMsg"
    using submitOrder_not_retried [OF first' that, where c = c and t = t and f = "fst ss"]
    by (auto simp add: createOrder_decompose [OF reach] Let_def ss_def c_def t_def isl_def
             split: sum.splits)
  show ?thesis using A B C unfolding flag c_def t_def by blast
qed

theorem createOrder_routing_retry_witness:
  "reaches_submission (ex_params 0.45) ex_world
   \<and> checkOrderResponse retry_env (clob_postOrder retry_env (count_events is_post ex_world))
       = Inl ''not enough balance''
   \<and> balance_allowance_error ''not enough balance''
   \<and> filter is_post (trace (snd (createOrder retry_env (ex_params 0.45) ex_world)))
       = [ClobPostOrder ''tok'' False, ClobPostOrder ''tok'' True]
   \<and> marketNegRiskCache (snd (createOrder retry_env (ex_params 0.45) ex_world)) ''cond'' = Some True
   \<and> tick_size_error ''MIN_TICK_SIZE''
   \<and> filter is_post (trace (snd (createOrder tick_env (ex_params 0.45) ex_world)))
       = [ClobPostOrder ''tok'' False]"
proof -
  have h: "reaches_submission (ex_params 0.45) ex_world"
    by (simp add: ex_defs model_defs)
  have f1: "checkOrderResponse retry_env (clob_postOrder retry_env (count_events is_post ex_world))
       = Inl ''not enough balance''"
    by (simp add: ex_defs model_defs)
  have f2: "checkOrderResponse tick_env (clob_postOrder tick_env (count_events is_post ex_world))
       = Inl ''MIN_TICK_SIZE''"
    by (simp add: ex_defs model_defs)
  have c: "balance_allowance_error ''not enough balance''"
      "\<not> corrupted_credentials_error ''not enough balance''"
      "\<not> invalid_signature_error ''not enough balance''"
      "\<not> tick_size_error ''not enough balance''"
      "tick_size_error ''MIN_TICK_SIZE''"
    by (simp_all add: balance_allowance_error_def corrupted_credentials_error_def
          invalid_signature_error_def tick_size_error_def)
  have r: "checkOrderResponse retry_env (clob_postOrder retry_env (Suc (count_events is_post ex_world)))
       = Inr (Some (ok_response ''0xabc''))"
    by (simp add: ex_defs model_defs)
  have n1: "fst (isNegRiskMarket retry_env ''cond'' ''tok'' ex_world) = False"
           "fst (isNegRiskMarket tick_env ''cond'' ''tok'' ex_world) = False"
    by (simp_all add: ex_defs model_defs)
  have pc: "p_conditionId (ex_params 0.45) = ''cond''" "p_tokenId (ex_params 0.45) = ''tok''"
    by (simp_all add: ex_params_def)
  have t0: "trace ex_world = []" by (simp add: ex_world_def)
  show ?thesis
    using h f1 c r createOrder_routing_retry [OF h f1] createOrder_routing_retry [OF h f2]
    unfolding pc n1 t0 by simp
qed

section \<open>Facts about the atomic batch\<close>

lemma processOrder_posts:
  "filter is_post (trace (ls_world (processOrder env u i x st))) =
   filter is_post (trace (ls_world st)) @ [ClobPostOrder (ai_tokenId x) False]"
  by (simp add: processOrder_def Let_def emit_def updateOrder_def split: sum.splits)

lemma processOrders_posts:
  "filter is_post (trace (ls_world (processOrders env u i xs st))) =
   filter is_post (trace (ls_world st)) @ map (\<lambda>x. ClobPostOrder (ai_tokenId x) False) xs"
  by (induction xs arbitrary: i st) (simp_all add: processOrder_posts)

lemma processOrder_cancels:
  "filter is_cancel (trace (ls_world (processOrder env u i x st))) =
   filter is_cancel (trace (ls_world st))"
  by (simp add: processOrder_def Let_def emit_def updateOrder_def split: sum.splits)

lemma processOrders_cancels:
  "filter is_cancel (trace (ls_world (processOrders env u i xs st))) =
   filter is_cancel (trace (ls_world st))"
  by (induction xs arbitrary: i st) (simp_all add: processOrder_cancels)

lemma processOrder_results_length:
  "length (ls_orderResults (processOrder env u i x st)) = Suc (length (ls_orderResults st))"
  by (simp add: processOrder_def Let_def split: sum.splits)

lemma processOrders_results_length:
  "length (ls_orderResults (processOrders env u i xs st)) = length (ls_orderResults st) + length xs"
  by (induction xs arbitrary: i st) (simp_all add: processOrder_results_length)

lemma acceptedIds_append: "acceptedIds (rs @ ss) = acceptedIds rs @ acceptedIds ss"
  by (simp add: acceptedIds_def)

lemma processOrder_inv:
  assumes "batch_inv n0 st"
  shows "batch_inv n0 (processOrder env u i x st)"
proof (cases "atomicOrderOutcome (clob_postOrder env (count_events is_post
         ((ls_world st)\<lparr>orders := orders (ls_world st) @
            [atomicOrderRecord u x (new_order_id env (length (orders (ls_world st))))]\<rparr>)))")
  case (Inl msg)
  then show ?thesis using assms
    by (auto simp add: batch_inv_def processOrder_def Let_def emit_def nth_append
          acceptedIds_append acceptedIds_def less_Suc_eq)
next
  case (Inr cid)
  then show ?thesis using assms
    by (auto simp add: batch_inv_def processOrder_def Let_def emit_def nth_append
          acceptedIds_append acceptedIds_def less_Suc_eq updateOrder_def atomicOrderRecord_def)
qed

lemma processOrders_inv:
  "batch_inv n0 st \<Longrightarrow> batch_inv n0 (processOrders env u i xs st)"
  by (induction xs arbitrary: i st) (simp_all add: processOrder_inv)

lemma batch_inv_init:
  "batch_inv (length (orders w))
     \<lparr>ls_world = w, ls_hasFailure = False, ls_submittedOrders = [], ls_orderResults = []\<rparr>"
  by (simp add: batch_inv_def acceptedIds_def)

lemma cancelSubmitted_trace: "trace (cancelSubmitted env cids w) = trace w @ map ClobCancelOrder cids"
  by (induction cids arbitrary: w) (simp_all add: emit_def)

lemma cancelSubmitted_orders: "orders (cancelSubmitted env cids w) = orders w"
  by (induction cids arbitrary: w) (simp_all add: emit_def)

lemma markCancelled_length [simp]: "length (orders (markCancelled s w)) = length (orders w)"
  by (simp add: markCancelled_def)

lemma markCancelled_trace [simp]: "trace (markCancelled s w) = trace w"
  by (simp add: markCancelled_def)

lemma markCancelled_status:
  "k < length (orders w) \<Longrightarrow> o_clobOrderId (orders w ! k) = Some c \<Longrightarrow> c \<in> set s \<Longrightarrow>
   o_status (orders (markCancelled s w) ! k) = CANCELLED"
  by (simp add: markCancelled_def)

lemma executeBatch_effects:
  assumes "executeBatch env u batch w = (resp, w')"
  shows "filter is_post (trace w') =
           filter is_post (trace w) @ map (\<lambda>x. ClobPostOrder (ai_tokenId x) False) batch"
    and "length (orders w') = length (orders w) + length batch"
    and "filter is_cancel (trace w') = filter is_cancel (trace w) @
           (if (\<exists>r \<in> set (ar_orderResults resp). \<not> or_success r)
            then map ClobCancelOrder (acceptedIds (ar_orderResults resp)) else [])"
    and "length (ar_orderResults resp) = length batch"
    and "(\<exists>r \<in> set (ar_orderResults resp). \<not> or_success r) \<Longrightarrow> i < length batch \<Longrightarrow>
         or_success (ar_orderResults resp ! i) \<Longrightarrow>
         o_status (orders w' ! (length (orders w) + i)) = CANCELLED"
proof -
  define st where "st = processOrders env u 0 batch
     \<lparr>ls_world = w, ls_hasFailure = False, ls_submittedOrders = [], ls_orderResults = []\<rparr>"
  have inv: "batch_inv (length (orders w)) st"
    unfolding st_def by (rule processOrders_inv [OF batch_inv_init])
  have posts: "filter is_post (trace (ls_world st)) =
      filter is_post (trace w) @ map (\<lambda>x. ClobPostOrder (ai_tokenId x) False) batch"
    unfolding st_def by (simp add: processOrders_posts)
  have cans: "filter is_cancel (trace (ls_world st)) = filter is_cancel (trace w)"
    unfolding st_def by (simp add: processOrders_cancels)
  have len: "length (ls_orderResults st) = length batch"
    unfolding st_def by (simp add: processOrders_results_length)
  have res: "ar_orderResults resp = ls_orderResults st"
    using assms by (auto simp add: executeBatch_def Let_def st_def split: if_splits)
  have out: "w' = (if ls_hasFailure st \<and> ls_submittedOrders st \<noteq> []
                   then markCancelled (ls_submittedOrders st)
                          (cancelSubmitted env (ls_submittedOrders st) (ls_world st))
                   else ls_world st)"
    using assms by (auto simp add: executeBatch_def Let_def st_def split: if_splits)
  show "filter is_post (trace w') =
           filter is_post (trace w) @ map (\<lambda>x. ClobPostOrder (ai_tokenId x) False) batch"
    by (simp add: out posts cancelSubmitted_trace filter_map comp_def)
  show "length (orders w') = length (orders w) + length batch"
    using inv len by (simp add: out cancelSubmitted_orders batch_inv_def)
  show "filter is_cancel (trace w') = filter is_cancel (trace w) @
           (if (\<exists>r \<in> set (ar_orderResults resp). \<not> or_success r)
            then map ClobCancelOrder (acceptedIds (ar_orderResults resp)) else [])"
    using inv by (auto simp add: out res cans cancelSubmitted_trace batch_inv_def filter_map comp_def)
  show "length (ar_orderResults resp) = length batch"
    by (simp add: res len)
  show "o_status (orders w' ! (length (orders w) + i)) = CANCELLED"
    if f: "\<exists>r \<in> set (ar_orderResults resp). \<not> or_success r" and i: "i < length batch"
       and s: "or_success (ar_orderResults resp ! i)"
  proof -
    from inv s i len res obtain c where
      c: "c \<in> set (ls_submittedOrders st)"
         "o_clobOrderId (orders (ls_world st) ! (length (orders w) + i)) = Some c"
      by (auto simp add: batch_inv_def)
    have hf: "ls_hasFailure st" using inv f res by (simp add: batch_inv_def)
    have ne: "ls_submittedOrders st \<noteq> []" using c by auto
    have k: "length (orders w) + i < length (orders (cancelSubmitted env (ls_submittedOrders st) (ls_world st)))"
      using inv len i by (simp add: cancelSubmitted_orders batch_inv_def)
    show ?thesis
      using markCancelled_status [OF k _ c(1)] c(2) hf ne
      by (simp add: out cancelSubmitted_orders)
  qed
qed

lemma executeAtomic_runs_batch:
  assumes "executeAtomic env ko req w = (Inr resp, w')"
  shows "\<exists>u. executeBatch env u (rq_orders req) w = (resp, w')"
    and "1 \<le> length (rq_orders req) \<and> length (rq_orders req) \<le> 10"
  using assms
  by (auto simp add: executeAtomic_def split: if_splits option.splits sum.splits prod.splits
        intro: Suc_leI)

lemmas batch_defs = secret_defs executeAtomic_def executeBatch_def resolveUser_def findUser_def
  findUserByExternalId_def validateAtomicOrder_def getUserWallet_def getApiCredentials_def
  truthy_def processOrder_def Let_def atomicOrderRecord_def atomicOrderOutcome_def js_or_def
  extract_clobOrderId_def emit_def updateOrder_def count_events_def markCancelled_def
  batch_order_def batch3_req_def batch2_req_def second_fails_env_def no_keys_def
  ex_env_def ex_world_def ex_user_def ok_response_def acceptedIds_def

section \<open>Properties of the atomic batch\<close>

text \<open>
  C1. The handler at a batch of three orders whose second posting is rejected: it does
  not stop there. The third order is persisted and posted all the same, and the rollback
  that follows the loop sends a cancel call for the first and for the third order. The
  MCP tool \<open>execute_atomic_orders\<close>, the other implementation of this operation, leaves
  its loop at the first failure.
\<close>

theorem executeAtomic_continues_after_failure:
  "atomicOrderOutcome (clob_postOrder second_fails_env 1) = Inl ''rejected''
   \<and> filter is_post (trace (snd (executeAtomic second_fails_env no_keys batch3_req ex_world)))
       = [ClobPostOrder ''t0'' False, ClobPostOrder ''t1'' False, ClobPostOrder ''t2'' False]
   \<and> map o_tokenId (orders (snd (executeAtomic second_fails_env no_keys batch3_req ex_world)))
       = [''t0'', ''t1'', ''t2'']
   \<and> filter is_cancel (trace (snd (executeAtomic second_fails_env no_keys batch3_req ex_world)))
       = [ClobCancelOrder ''c'', ClobCancelOrder ''ccc'']
   \<and> map or_success
         (case fst (executeAtomic second_fails_env no_keys batch3_req ex_world) of
            Inr resp \<Rightarrow> ar_orderResults resp | Inl e \<Rightarrow> [])
       = [True, False, True]"
  by (simp add: batch_defs)

text \<open>
  C2, as the code has it. When some order of an executed batch failed, the record of
  every accepted order is CANCELLED after the rollback, whatever the cancel calls
  answered. The record of order \<open>i\<close> of the batch is the one at position \<open>i\<close> after the
  records the table held before.
\<close>

theorem executeAtomic_accepted_cancelled:
  assumes "executeAtomic env key_owner req w = (Inr resp, w')"
      and "\<exists>r \<in> set (ar_orderResults resp). \<not> or_success r"
      and "i < length (rq_orders req)"
      and "or_success (ar_orderResults resp ! i)"
  shows "o_status (orders w' ! (length (orders w) + i)) = CANCELLED"
proof -
  obtain u where u: "executeBatch env u (rq_orders req) w = (resp, w')"
    using executeAtomic_runs_batch(1) [OF assms(1)] by blast
  show ?thesis
    by (rule executeBatch_effects(5) [OF u assms(2) assms(3) assms(4)])
qed


theorem executeAtomic_accepted_cancelled_witness:
  "clob_cancelOrder second_fails_env 0 = False
   \<and> o_status (orders (snd (executeAtomic second_fails_env no_keys batch3_req ex_world))
                ! (length (orders ex_world) + 2)) = CANCELLED"
proof -
  have run: "executeAtomic second_fails_env no_keys batch3_req ex_world =
     (Inr \<lparr>ar_httpStatus = 400, ar_success = False,
          ar_orderResults =
            [\<lparr>or_index = 0, or_orderId = Some ''o'', or_clobOrderId = Some ''c'',
               or_success = True, or_error = None\<rparr>,
             \<lparr>or_index = 1, or_orderId = None, or_clobOrderId = None,
               or_success = False, or_error = Some ''rejected''\<rparr>,
             \<lparr>or_index = 2, or_orderId = Some ''ooo'', or_clobOrderId = Some ''ccc'',
               or_success = True, or_error = None\<rparr>]\<rparr>,
      snd (executeAtomic second_fails_env no_keys batch3_req ex_world))"
    by (simp add: batch_defs)
  have c: "clob_cancelOrder second_fails_env 0 = False"
    by (simp add: second_fails_env_def)
  show ?thesis
    using c executeAtomic_accepted_cancelled [OF run, of 2]
    by (simp add: batch3_req_def)
qed

text \<open>
  In a batch of two whose second order is rejected, the rollback runs and the record
  of the rejected order keeps the status PENDING.
\<close>

theorem executeAtomic_failed_member_pending:
  "fst (executeAtomic second_fails_env no_keys batch2_req ex_world) =
     Inr \<lparr>ar_httpStatus = 400, ar_success = False,
          ar_orderResults =
            [\<lparr>or_index = 0, or_orderId = Some ''o'', or_clobOrderId = Some ''c'',
               or_success = True, or_error = None\<rparr>,
             \<lparr>or_index = 1, or_orderId = None, or_clobOrderId = None,
               or_success = False, or_error = Some ''rejected''\<rparr>]\<rparr>
   \<and> map o_status (orders (snd (executeAtomic second_fails_env no_keys batch2_req ex_world)))
       = [CANCELLED, PENDING]
   \<and> filter is_cancel (trace (snd (executeAtomic second_fails_env no_keys batch2_req ex_world)))
       = [ClobCancelOrder ''c'']"
  by (simp add: batch_defs)

section \<open>Facts about the wallet service\<close>

lemma status_writes_append [simp]:
  "status_writes uid (es @ fs) = status_writes uid es @ status_writes uid fs"
  by (induction uid es rule: status_writes.induct) simp_all

lemma deploy_events_append [simp]: "deploy_events (es @ fs) = deploy_events es @ deploy_events fs"
  by (simp add: deploy_events_def)

lemma trace_emit [simp]: "trace (emit e w) = trace w @ [e]"
  by (simp add: emit_def)

lemma users_emit [simp]: "users (emit e w) = users w"
  by (simp add: emit_def)

lemma users_logActivity [simp]: "users (logActivity u a r b w) = users w"
  by (simp add: logActivity_def)

lemma trace_updateUser [simp]: "trace (updateUser uid f w) = trace w"
  by (simp add: updateUser_def)

lemma find_map_update:
  "(\<And>u. u_id (f u) = u_id u) \<Longrightarrow>
   find (\<lambda>u. u_id u = uid) (map (\<lambda>u. if u_id u = uid then f u else u) us) =
   map_option f (find (\<lambda>u. u_id u = uid) us)"
  by (induction us) auto

lemma findUser_cong: "users w = users w' \<Longrightarrow> findUser w uid = findUser w' uid"
  by (simp add: findUser_def)

lemma userStatus_cong: "users w = users w' \<Longrightarrow> userStatus w uid = userStatus w' uid"
  by (simp add: userStatus_def findUser_def)

lemma findUser_updateUser:
  "(\<And>u. u_id (f u) = u_id u) \<Longrightarrow>
   findUser (updateUser uid f w) uid = map_option f (findUser w uid)"
  by (simp add: findUser_def updateUser_def find_map_update)

lemma findUser_setUserStatus:
  "findUser (setUserStatus uid s w) uid = map_option (\<lambda>u. u\<lparr>u_status := s\<rparr>) (findUser w uid)"
  by (simp add: setUserStatus_def findUser_cong [of "emit _ _"] findUser_updateUser)

lemma trace_setUserStatus [simp]: "trace (setUserStatus uid s w) = trace w @ [StatusWrite uid s]"
  by (simp add: setUserStatus_def)

lemma userStatus_setUserStatus:
  "userStatus (setUserStatus uid s w) uid = (if findUser w uid = None then None else Some s)"
  by (auto simp add: userStatus_def findUser_setUserStatus)

lemma trace_markDeployed [simp]:
  "trace (markDeployed uid a w) = trace w @ [StatusWrite uid SAFE_DEPLOYED]"
  by (simp add: markDeployed_def)

lemma findUser_markDeployed:
  "findUser (markDeployed uid a w) uid =
   map_option (\<lambda>u. u\<lparr>u_safeAddress := Some a, u_safeDeployed := True, u_status := SAFE_DEPLOYED\<rparr>)
     (findUser w uid)"
  by (simp add: markDeployed_def findUser_cong [of "emit _ _"] findUser_updateUser)

lemma trace_saveSafeDeployment [simp]:
  "trace (saveSafeDeployment uid ow a t w) = trace w @ [StatusWrite uid SAFE_DEPLOYED]"
  by (simp add: saveSafeDeployment_def)

lemma findUser_saveSafeDeployment:
  "findUser (saveSafeDeployment uid ow a t w) uid =
   map_option (\<lambda>u. u\<lparr>u_safeAddress := Some a, u_safeDeployed := True, u_status := SAFE_DEPLOYED\<rparr>)
     (findUser w uid)"
  by (simp add: saveSafeDeployment_def findUser_cong [of "logActivity _ _ _ _ _"]
        findUser_markDeployed) (simp add: findUser_def)

lemma userStatus_saveSafeDeployment:
  "userStatus (saveSafeDeployment uid ow a t w) uid =
     (if findUser w uid = None then None else Some SAFE_DEPLOYED)"
  by (auto simp add: userStatus_def findUser_saveSafeDeployment)

lemma getCode_world [simp]:
  "trace (snd (getCode env a w)) = trace w @ [ChainGetCode a]"
  "users (snd (getCode env a w)) = users w"
  by (simp_all add: getCode_def)

lemma waitBeforeRetry_world [simp]:
  "users (waitBeforeRetry n w) = users w"
  "status_writes uid (trace (waitBeforeRetry n w)) = status_writes uid (trace w)"
  "deploy_events (trace (waitBeforeRetry n w)) =
     deploy_events (trace w) @ (if n < 3 then [Sleep (n * 2000)] else [])"
  by (simp_all add: waitBeforeRetry_def deploy_events_def)

lemma findUser_emit [simp]: "findUser (emit e w) uid = findUser w uid"
  by (simp add: findUser_def)

lemma findUser_logActivity [simp]: "findUser (logActivity u a r b w) uid = findUser w uid"
  by (simp add: findUser_def)

lemma count_events_emit [simp]:
  "count_events P (emit e w) = (if P e then Suc (count_events P w) else count_events P w)"
  by (simp add: count_events_def)

lemma deploy_step_save:
  "status_writes uid (trace w1) = status_writes uid (trace w) \<Longrightarrow> users w1 = users w \<Longrightarrow>
   deploy_step uid w (saveSafeDeployment uid ow a t w1) True"
  by (simp add: deploy_step_def userStatus_saveSafeDeployment findUser_cong [of w1 w])

lemma deployCatch_effect:
  assumes "deployCatch env uid wa attempt msg vars w = (flow, vars', w')"
  shows "deploy_step uid w w' (is_returned flow)"
    and "flow \<noteq> Broke"
    and "deploy_events (trace w') =
           deploy_events (trace w) @ (if flow = Next \<and> attempt < 3 then [Sleep (attempt * 2000)] else [])"
    and "dv_response vars' = dv_response vars"
    and "flow = Next \<Longrightarrow> dv_lastError vars' = Some msg"
    and "count_events is_deploy w' = count_events is_deploy w"
  using assms
  by (auto simp add: deployCatch_def Let_def getCode_def count_events_def
        waitBeforeRetry_def deploy_events_def deploy_step_def userStatus_saveSafeDeployment
        split: option.splits if_splits prod.splits code_result.splits)

lemma deployCheckTransaction_effect:
  assumes "deployCheckTransaction env uid wa attempt vars w = (flow, vars', w')"
  shows "deploy_step uid w w' (is_returned flow)"
    and "deploy_events (trace w') =
           deploy_events (trace w) @ (if flow = Next \<and> attempt < 3 then [Sleep (attempt * 2000)] else [])"
    and "flow = Broke \<Longrightarrow> truthy (case dv_response vars' of None \<Rightarrow> None | Some r \<Rightarrow> dr_transactionID r)"
    and "flow = Next \<Longrightarrow> dv_lastError vars' \<noteq> None
           \<and> \<not> truthy (case dv_response vars' of None \<Rightarrow> None | Some r \<Rightarrow> dr_transactionID r)"
    and "count_events is_deploy w' = count_events is_deploy w"
  using assms deployCatch_effect [of env uid wa attempt "''No transaction ID in deploy response''" vars w flow vars' w']
  by (auto simp add: deployCheckTransaction_def deploy_step_def split: if_splits)

declare deployAttempts.simps [simp del]

lemma deploy_step_trans:
  "deploy_step uid w w1 False \<Longrightarrow> deploy_step uid w1 w2 ok \<Longrightarrow> deploy_step uid w w2 ok"
  by (auto simp add: deploy_step_def findUser_cong [of w1 w])

lemma deploy_step_emit:
  "status_writes uid [e] = [] \<Longrightarrow> deploy_step uid w (emit e w) False"
  by (simp add: deploy_step_def)

lemma deployAttempt_effect:
  assumes "deployAttempt env uid wa attempt vars w = (flow, vars', w')"
  shows "deploy_step uid w w' (is_returned flow)"
    and "deploy_events (trace w') = deploy_events (trace w) @
           RelayDeploy # (if flow = Next \<and> attempt < 3 then [Sleep (attempt * 2000)] else [])"
    and "flow = Broke \<Longrightarrow> truthy (transactionID_of vars')"
    and "flow = Next \<Longrightarrow> dv_lastError vars' \<noteq> None"
proof -
  let ?w1 = "emit RelayDeploy w"
  have s1: "deploy_step uid w ?w1 False" by (rule deploy_step_emit) simp
  have e1: "deploy_events (trace ?w1) = deploy_events (trace w) @ [RelayDeploy]"
    by (simp add: deploy_events_def)
  show "deploy_step uid w w' (is_returned flow)"
    using assms
    by (auto simp add: deployAttempt_def Let_def getCode_def transactionID_of_def
          split: deploy_result.splits option.splits if_splits prod.splits code_result.splits
          intro!: deploy_step_trans [OF s1]
          dest: deployCatch_effect(1) deployCheckTransaction_effect(1))
       (auto simp add: deploy_step_def userStatus_saveSafeDeployment
          dest!: deployCheckTransaction_effect(1) deployCatch_effect(1))
  show "deploy_events (trace w') = deploy_events (trace w) @
           RelayDeploy # (if flow = Next \<and> attempt < 3 then [Sleep (attempt * 2000)] else [])"
    using assms e1
    by (auto simp add: deployAttempt_def Let_def getCode_def deploy_events_def
          split: deploy_result.splits option.splits if_splits prod.splits code_result.splits
          dest!: deployCatch_effect(3) deployCheckTransaction_effect(2))
  show "flow = Broke \<Longrightarrow> truthy (transactionID_of vars')"
    using assms
    by (auto simp add: deployAttempt_def Let_def getCode_def transactionID_of_def
          split: deploy_result.splits option.splits if_splits prod.splits code_result.splits
          dest: deployCatch_effect(2) deployCheckTransaction_effect(3))
  show "flow = Next \<Longrightarrow> dv_lastError vars' \<noteq> None"
    using assms
    by (auto simp add: deployAttempt_def Let_def getCode_def
          split: deploy_result.splits option.splits if_splits prod.splits code_result.splits
          dest: deployCatch_effect(5) deployCheckTransaction_effect(4))
qed

lemma deployAttempts_step:
  "attempt \<le> 3 \<Longrightarrow> deployAttempt env uid wa attempt vars w = (flow, v1, w1) \<Longrightarrow>
   deployAttempts env uid wa attempt vars w =
     (if flow = Next then deployAttempts env uid wa (Suc attempt) v1 w1 else (flow, v1, w1))"
  by (subst deployAttempts.simps) (simp split: loop_flow.splits)

lemma deployAttempts_done:
  "3 < attempt \<Longrightarrow> deployAttempts env uid wa attempt vars w = (Next, vars, w)"
  by (subst deployAttempts.simps) simp

lemma schedule_from_last: "schedule_from k k = [RelayDeploy]"
  by (simp add: schedule_from_def)

lemma schedule_from_Suc:
  "a < k \<Longrightarrow> schedule_from a k = RelayDeploy # Sleep (a * 2000) # schedule_from (Suc a) k"
  by (simp add: schedule_from_def upt_conv_Cons)

lemma deploy_step_refl: "deploy_step uid w w False"
  by (simp add: deploy_step_def)

lemma deployAttempts_effect:
  assumes "4 - attempt = n" and "1 \<le> attempt" and "attempt \<le> 3"
      and "deployAttempts env uid wa attempt vars w = (res, vars', w')"
  shows "deploy_step uid w w' (is_returned res)
       \<and> (\<exists>k. attempt \<le> k \<and> k \<le> 3 \<and> (res = Next \<longrightarrow> k = 3)
              \<and> deploy_events (trace w') = deploy_events (trace w) @ schedule_from attempt k)
       \<and> (res = Broke \<longrightarrow> truthy (transactionID_of vars'))
       \<and> (res = Next \<longrightarrow> dv_lastError vars' \<noteq> None)"
  using assms
proof (induction n arbitrary: attempt vars w)
  case 0
  then show ?case by simp
next
  case (Suc n)
  obtain flow v1 w1 where step: "deployAttempt env uid wa attempt vars w = (flow, v1, w1)"
    by (cases "deployAttempt env uid wa attempt vars w") auto
  note eff = deployAttempt_effect [OF step]
  note unroll = deployAttempts_step [OF Suc.prems(3) step]
  show ?case
  proof (cases "flow = Next")
    case False
    then have r: "res = flow" "vars' = v1" "w' = w1"
      using unroll Suc.prems(4) by simp_all
    have "deploy_events (trace w') = deploy_events (trace w) @ schedule_from attempt attempt"
      using eff(2) False r by (simp add: schedule_from_last)
    then show ?thesis
      using eff(1) eff(3) False r Suc.prems(3) by auto
  next
    case True
    then have rec: "deployAttempts env uid wa (Suc attempt) v1 w1 = (res, vars', w')"
      using unroll Suc.prems(4) by simp
    show ?thesis
    proof (cases "attempt = 3")
      case last: True
      then have r: "res = Next" "vars' = v1" "w' = w1"
        using rec deployAttempts_done [of "Suc attempt" env uid wa v1 w1] by simp_all
      have "deploy_events (trace w') = deploy_events (trace w) @ schedule_from attempt attempt"
        using eff(2) True r last by (simp add: schedule_from_last)
      then show ?thesis
        using eff(1) eff(4) True r last by auto
    next
      case False
      then have lt: "attempt < 3" using Suc.prems(3) by simp
      have ih: "deploy_step uid w1 w' (is_returned res)
         \<and> (\<exists>k. Suc attempt \<le> k \<and> k \<le> 3 \<and> (res = Next \<longrightarrow> k = 3)
                \<and> deploy_events (trace w') = deploy_events (trace w1) @ schedule_from (Suc attempt) k)
         \<and> (res = Broke \<longrightarrow> truthy (transactionID_of vars'))
         \<and> (res = Next \<longrightarrow> dv_lastError vars' \<noteq> None)"
        using Suc.IH [of "Suc attempt" v1 w1] Suc.prems(1) lt rec by simp
      then obtain k where k: "Suc attempt \<le> k" "k \<le> 3" "res = Next \<longrightarrow> k = 3"
          "deploy_events (trace w') = deploy_events (trace w1) @ schedule_from (Suc attempt) k"
        by blast
      have s: "deploy_step uid w w' (is_returned res)"
        using deploy_step_trans [of uid w w1 w' "is_returned res"] eff(1) True ih by simp
      have d: "deploy_events (trace w') = deploy_events (trace w) @ schedule_from attempt k"
        using k eff(2) True lt by (simp add: schedule_from_Suc)
      have "attempt \<le> k" using k(1) by simp
      then show ?thesis
        using s d k(2) k(3) ih by blast
    qed
  qed
qed


lemma userStatus_markDeployed:
  "userStatus (markDeployed uid a w) uid = (if findUser w uid = None then None else Some SAFE_DEPLOYED)"
  by (auto simp add: userStatus_def findUser_markDeployed)

lemma users_getCode: "users (snd (getCode env a w)) = users w"
  by simp

lemma checkPredicted_effect:
  assumes "checkPredicted env uid wa known w = (res, w')"
  shows "deploy_step uid w w' (\<not> isl res)"
  using assms
  by (auto simp add: checkPredicted_def Let_def getCode_def deploy_step_def
        userStatus_saveSafeDeployment
        split: option.splits if_splits prod.splits code_result.splits)

lemma recoverAfterPoll_effect:
  assumes "recoverAfterPoll env uid wa known w = (res, w')"
  shows "deploy_step uid w w' (\<not> isl res)"
proof (cases "truthy known")
  case False
  then have "checkPredicted env uid wa known w = (res, w')"
    using assms by (auto simp add: recoverAfterPoll_def truthy_def split: option.splits if_splits)
  then show ?thesis by (rule checkPredicted_effect)
next
  case True
  then obtain k where k: "known = Some k" "k \<noteq> []"
    by (auto simp add: truthy_def split: option.splits)
  let ?w1 = "emit (ChainGetCode k) w"
  let ?w2 = "emit (ChainGetCode k) (emit (Sleep 5000) ?w1)"
  let ?c1 = "provider_getCode env (count_events is_getCode w) k"
  let ?c2 = "provider_getCode env (count_events is_getCode (emit (Sleep 5000) ?w1)) k"
  have s2: "deploy_step uid w ?w2 False" by (simp add: deploy_step_def)
  have unfold: "recoverAfterPoll env uid wa known w =
      (case ?c1 of
         CodeThrew m \<Rightarrow> (Inl m, ?w1)
       | CodeReturned code \<Rightarrow>
           if has_code code then (Inr k, saveSafeDeployment uid wa k ''recovered-known'' ?w1)
           else (case ?c2 of
                   CodeThrew m \<Rightarrow> (Inl m, ?w2)
                 | CodeReturned codeRetry \<Rightarrow>
                     if has_code codeRetry
                     then (Inr k, saveSafeDeployment uid wa k ''recovered-delayed'' ?w2)
                     else checkPredicted env uid wa known ?w2))"
    unfolding recoverAfterPoll_def getCode_def using k
    by (simp split: code_result.splits)
  show ?thesis
  proof (cases ?c1)
    case (CodeThrew m)
    then have "res = Inl m" "w' = ?w1" using assms unfold by simp_all
    then show ?thesis by (simp add: deploy_step_def)
  next
    case r1: (CodeReturned code)
    show ?thesis
    proof (cases "has_code code")
      case True
      then have "res = Inr k" "w' = saveSafeDeployment uid wa k ''recovered-known'' ?w1"
        using assms unfold r1 by simp_all
      then show ?thesis by (simp add: deploy_step_def userStatus_saveSafeDeployment)
    next
      case c1: False
      show ?thesis
      proof (cases ?c2)
        case (CodeThrew m)
        then have "res = Inl m" "w' = ?w2" using assms unfold r1 c1 by simp_all
        then show ?thesis by (simp add: deploy_step_def)
      next
        case r2: (CodeReturned codeRetry)
        show ?thesis
        proof (cases "has_code codeRetry")
          case True
          then have "res = Inr k" "w' = saveSafeDeployment uid wa k ''recovered-delayed'' ?w2"
            using assms unfold r1 c1 r2 by simp_all
          then show ?thesis by (simp add: deploy_step_def userStatus_saveSafeDeployment)
        next
          case False
          then have c: "checkPredicted env uid wa known ?w2 = (res, w')"
            using assms unfold r1 c1 r2 by simp
          show ?thesis by (rule deploy_step_trans [OF s2 checkPredicted_effect [OF c]])
        qed
      qed
    qed
  qed
qed

lemma deployConfirm_effect:
  assumes "deployConfirm env uid wa txid known w = (res, w')"
  shows "deploy_step uid w w' (\<not> isl res)"
proof -
  let ?w1 = "emit (RelayPoll txid) w"
  have s1: "deploy_step uid w ?w1 False" by (simp add: deploy_step_def)
  consider (a) "recoverAfterPoll env uid wa known ?w1 = (res, w')"
    | (b) a t where "res = Inr a" "w' = saveSafeDeployment uid wa a t ?w1"
    using assms
    by (auto simp add: deployConfirm_def Let_def split: option.splits if_splits poll_result.splits)
  then show ?thesis
  proof cases
    case a
    show ?thesis by (rule deploy_step_trans [OF s1 recoverAfterPoll_effect [OF a]])
  next
    case b
    then show ?thesis by (simp add: deploy_step_def userStatus_saveSafeDeployment)
  qed
qed

lemma deploySafeWallet_try_effect:
  assumes "deploySafeWallet_try env uid w = (res, w')"
  shows "deploy_step uid w w' (\<not> isl res)"
proof (cases "getUserWallet w uid")
  case (Inl e)
  then have "res = Inl e" "w' = w"
    using assms by (simp_all add: deploySafeWallet_try_def)
  then show ?thesis by (simp add: deploy_step_def)
next
  case (Inr wa)
  show ?thesis
  proof (cases "getBuilderConfig env")
    case False
    then show ?thesis using assms Inr
      by (auto simp add: deploySafeWallet_try_def deploy_step_def)
  next
    case True
    obtain r v1 w1 where loop: "deployAttempts env uid wa 1
        \<lparr>dv_response = None, dv_lastError = None, dv_knownProxyWallet = None\<rparr> w = (r, v1, w1)"
      by (cases "deployAttempts env uid wa 1
        \<lparr>dv_response = None, dv_lastError = None, dv_knownProxyWallet = None\<rparr> w") auto
    have eff: "deploy_step uid w w1 (is_returned r)"
      using deployAttempts_effect [where uid = uid and n = 3, OF _ _ _ loop] by simp
    let ?thrown = "Inl (case dv_lastError v1 of Some e \<Rightarrow> e
                        | None \<Rightarrow> ''Failed to submit Safe deployment after retries'')"
    have unfold: "deploySafeWallet_try env uid w =
        (case r of
           Returned a \<Rightarrow> (Inr a, w1)
         | Threw m \<Rightarrow> (Inl m, w1)
         | _ \<Rightarrow>
           if truthy (transactionID_of v1)
           then deployConfirm env uid wa (case transactionID_of v1 of Some t \<Rightarrow> t | None \<Rightarrow> [])
                  (dv_knownProxyWallet v1) w1
           else (?thrown, w1))"
      using Inr True loop
      by (simp add: deploySafeWallet_try_def transactionID_of_def truthy_def
            split: option.splits loop_flow.splits)
    consider (ret) a where "r = Returned a" | (thr) m where "r = Threw m"
      | (rest) "r = Broke \<or> r = Next"
      by (cases r) auto
    then show ?thesis
    proof cases
      case ret
      then have "res = Inr a" "w' = w1" using assms unfold by simp_all
      then show ?thesis using eff ret by simp
    next
      case thr
      then have "res = Inl m" "w' = w1" using assms unfold by simp_all
      then show ?thesis using eff thr by simp
    next
      case rest
      then have nr: "\<not> is_returned r" by auto
      have unfold2: "deploySafeWallet_try env uid w =
          (if truthy (transactionID_of v1)
           then deployConfirm env uid wa (case transactionID_of v1 of Some t \<Rightarrow> t | None \<Rightarrow> [])
                  (dv_knownProxyWallet v1) w1
           else (?thrown, w1))"
        using unfold rest by auto
      show ?thesis
      proof (cases "truthy (transactionID_of v1)")
        case False
        then have "res = ?thrown" "w' = w1" using assms unfold2 by simp_all
        then show ?thesis using eff nr by simp
      next
        case True
        then have b: "deployConfirm env uid wa
            (case transactionID_of v1 of Some t \<Rightarrow> t | None \<Rightarrow> [])
            (dv_knownProxyWallet v1) w1 = (res, w')"
          using assms unfold2 by simp
        show ?thesis
          using deploy_step_trans [of uid w w1 w'] eff nr deployConfirm_effect [OF b] by simp
      qed
    qed
  qed
qed

lemma retryDeployForAddress_effect:
  assumes "retryDeployForAddress env w = (found, w1)"
  shows "w1 = emit RelayDeploy w"
  using assms
  by (auto simp add: retryDeployForAddress_def split: deploy_result.splits option.splits)

lemma persistRecovered_effect:
  assumes "persistRecovered env uid addr w = (res, w')"
  shows "deploy_step uid w w' (res \<noteq> None)"
  using assms
  by (auto simp add: persistRecovered_def getCode_def deploy_step_def userStatus_def
        findUser_markDeployed split: option.splits if_splits code_result.splits)

lemma recoverAlreadyDeployed_effect:
  assumes "recoverAlreadyDeployed env uid msg w = (res, w')"
  shows "deploy_step uid w w' (res \<noteq> None)"
proof (cases "getUserWallet w uid")
  case (Inl e)
  then have "res = None" "w' = w"
    using assms by (simp_all add: recoverAlreadyDeployed_def)
  then show ?thesis by (simp add: deploy_step_def)
next
  case (Inr wa)
  show ?thesis
  proof (cases "getBuilderConfig env")
    case False
    then have "res = None" "w' = w"
      using assms Inr by (simp_all add: recoverAlreadyDeployed_def)
    then show ?thesis by (simp add: deploy_step_def)
  next
    case True
    show ?thesis
    proof (cases "match_address msg")
      case (Some a)
      then have "persistRecovered env uid
          (if truthy (Some a) then Some a else getPredictedSafeAddress env wa) w = (res, w')"
        using assms Inr True by (simp add: recoverAlreadyDeployed_def)
      then show ?thesis by (rule persistRecovered_effect)
    next
      case None
      obtain found w1 where r: "retryDeployForAddress env w = (found, w1)"
        by (cases "retryDeployForAddress env w") auto
      have w1: "w1 = emit RelayDeploy w" by (rule retryDeployForAddress_effect [OF r])
      have s1: "deploy_step uid w w1 False" by (simp add: w1 deploy_step_def)
      have "persistRecovered env uid
          (if truthy found then found else getPredictedSafeAddress env wa) w1 = (res, w')"
        using assms Inr True None r by (simp add: recoverAlreadyDeployed_def)
      then show ?thesis
        using deploy_step_trans [OF s1 persistRecovered_effect] by blast
    qed
  qed
qed

lemma deploy_events_status [simp]: "deploy_events [StatusWrite u s] = []"
  by (simp add: deploy_events_def)

lemma deployCatchOuter_effect:
  assumes "deployCatchOuter env uid e w = (res, w')" and "findUser w uid \<noteq> None"
  shows "(\<not> isl res \<and> status_writes uid (trace w') = status_writes uid (trace w) @ [SAFE_DEPLOYED]
            \<and> userStatus w' uid = Some SAFE_DEPLOYED)
       \<or> (res = Inl e \<and> status_writes uid (trace w') = status_writes uid (trace w) @ [CREATED]
            \<and> userStatus w' uid = Some CREATED)"
proof (cases "alreadyDeployedMessage e")
  case False
  then have "res = Inl e" "w' = setUserStatus uid CREATED w"
    using assms(1) by (simp_all add: deployCatchOuter_def)
  then show ?thesis using assms(2) by (simp add: userStatus_setUserStatus)
next
  case True
  obtain r w1 where rec: "recoverAlreadyDeployed env uid e w = (r, w1)"
    by (cases "recoverAlreadyDeployed env uid e w") auto
  note eff = recoverAlreadyDeployed_effect [OF rec]
  show ?thesis
  proof (cases r)
    case None
    then have out: "res = Inl e" "w' = setUserStatus uid CREATED w1"
      using assms(1) True rec by (simp_all add: deployCatchOuter_def)
    have "findUser w1 uid \<noteq> None"
      using eff None assms(2) by (simp add: deploy_step_def findUser_cong [of w1 w])
    then show ?thesis using out eff None
      by (simp add: userStatus_setUserStatus deploy_step_def)
  next
    case (Some a)
    then have out: "res = Inr a" "w' = w1"
      using assms(1) True rec by (simp_all add: deployCatchOuter_def)
    then show ?thesis using eff Some assms(2) by (simp add: deploy_step_def)
  qed
qed

lemma deploySafeWallet_status:
  assumes "deploySafeWallet env uid w = (res, w')"
  shows "w' = w
       \<or> (\<not> isl res \<and> status_writes uid (trace w') =
             status_writes uid (trace w) @ [SAFE_DEPLOYING, SAFE_DEPLOYED]
           \<and> userStatus w' uid = Some SAFE_DEPLOYED)
       \<or> (isl res \<and> status_writes uid (trace w') =
             status_writes uid (trace w) @ [SAFE_DEPLOYING, CREATED]
           \<and> userStatus w' uid = Some CREATED)"
proof (cases "findUser w uid")
  case None
  then show ?thesis using assms by (simp add: deploySafeWallet_def)
next
  case (Some usr)
  show ?thesis
  proof (cases "u_safeDeployed usr \<and> truthy (u_safeAddress usr)")
    case True
    then have "w' = w" using assms Some
      by (auto simp add: deploySafeWallet_def truthy_def split: option.splits)
    then show ?thesis by simp
  next
    case False
    let ?w1 = "setUserStatus uid SAFE_DEPLOYING w"
    obtain r w2 where t: "deploySafeWallet_try env uid ?w1 = (r, w2)"
      by (cases "deploySafeWallet_try env uid ?w1") auto
    note eff = deploySafeWallet_try_effect [OF t]
    have f1: "findUser ?w1 uid \<noteq> None" using Some by (simp add: findUser_setUserStatus)
    have unfold: "deploySafeWallet env uid w =
        (case r of Inr a \<Rightarrow> (Inr a, w2) | Inl e \<Rightarrow> deployCatchOuter env uid e w2)"
      using Some False t by (auto simp add: deploySafeWallet_def split: sum.splits)
    show ?thesis
    proof (cases r)
      case (Inr a)
      then have "res = Inr a" "w' = w2" using assms unfold by simp_all
      then show ?thesis using eff Inr f1 by (simp add: deploy_step_def)
    next
      case (Inl e)
      then have c: "deployCatchOuter env uid e w2 = (res, w')" using assms unfold by simp
      have sw: "status_writes uid (trace w2) = status_writes uid (trace w) @ [SAFE_DEPLOYING]"
        and us: "users w2 = users ?w1"
        using eff Inl by (simp_all add: deploy_step_def)
      have f2: "findUser w2 uid \<noteq> None" using f1 by (simp add: findUser_cong [OF us])
      show ?thesis
        using deployCatchOuter_effect [OF c f2] sw by auto
    qed
  qed
qed

lemma users_storeApiCredentials:
  "findUser (storeApiCredentials uid (k, s, p) w) uid =
   map_option (\<lambda>u. u\<lparr>u_encryptedApiKey := Some k,
                      u_encryptedApiSecret := Some s,
                      u_encryptedApiPassphrase := Some p\<rparr>) (findUser w uid)"
  by (simp add: storeApiCredentials_def findUser_updateUser)

lemma trace_storeApiCredentials [simp]: "trace (storeApiCredentials uid c w) = trace w"
  by (cases c) (simp add: storeApiCredentials_def)

lemma obtainCredentials_effect:
  "users (snd (obtainCredentials env w)) = users w"
  "status_writes uid (trace (snd (obtainCredentials env w))) = status_writes uid (trace w)"
  "fst (obtainCredentials env w) = fst (obtainCredentials env w0)"
  by (simp_all add: obtainCredentials_def Let_def split: option.splits api_key_result.splits)

lemma validateSecret_effect:
  "users (snd (validateSecret env s w)) = users w"
  "status_writes uid (trace (snd (validateSecret env s w))) = status_writes uid (trace w)"
  "fst (validateSecret env s w) =
     (case buffer_from_base64 env s of
        None \<Rightarrow> Inl ''CLOB API returned invalid base64 secret - cannot proceed''
      | Some d \<Rightarrow> Inr ())"
  by (simp_all add: validateSecret_def split: option.splits)

lemma createApiCredentials_try_unfold:
  "createApiCredentials_try env uid w =
    (case getUserWallet w uid of
       Inl e \<Rightarrow> (Inl e, w)
     | Inr wa \<Rightarrow>
        (case fst (obtainCredentials env w) of
           None \<Rightarrow>
             (Inl (''Failed to obtain CLOB API credentials - both derive and create failed. ''
                   @ ''The wallet may have too many existing API keys on Polymarket.''),
              snd (obtainCredentials env w))
         | Some c \<Rightarrow>
             (case fst (validateSecret env (fst (snd c)) (snd (obtainCredentials env w))) of
                Inl e \<Rightarrow> (Inl e, snd (validateSecret env (fst (snd c)) (snd (obtainCredentials env w))))
              | Inr u \<Rightarrow>
                  (Inr (),
                   logActivity uid ''API_CREDENTIALS_CREATED'' uid True
                     (setUserStatus uid READY
                        (storeApiCredentials uid c
                           (snd (validateSecret env (fst (snd c)) (snd (obtainCredentials env w))))))))))"
  by (simp add: createApiCredentials_try_def case_prod_beta split: sum.splits option.splits)

lemma userStatus_logActivity: "userStatus (logActivity u a r b w) uid = userStatus w uid"
  by (simp add: userStatus_def)

lemma findUser_store_cong:
  "findUser (storeApiCredentials uid c w) uid = None \<longleftrightarrow> findUser w uid = None"
  by (cases c) (simp add: users_storeApiCredentials)

lemma createApiCredentials_try_effect:
  assumes "createApiCredentials_try env uid w = (res, w')"
  shows "(isl res \<and> users w' = users w
            \<and> status_writes uid (trace w') = status_writes uid (trace w))
       \<or> (res = Inr () \<and> status_writes uid (trace w') = status_writes uid (trace w) @ [READY]
            \<and> userStatus w' uid = (if findUser w uid = None then None else Some READY))"
proof (cases "getUserWallet w uid")
  case (Inl e)
  then have "res = Inl e" "w' = w"
    using assms by (simp_all add: createApiCredentials_try_unfold)
  then show ?thesis by simp
next
  case (Inr wa)
  let ?w1 = "snd (obtainCredentials env w)"
  show ?thesis
  proof (cases "fst (obtainCredentials env w)")
    case None
    then have "isl res" "w' = ?w1"
      using assms Inr by (auto simp add: createApiCredentials_try_unfold)
    then show ?thesis by (simp add: obtainCredentials_effect(1,2))
  next
    case (Some c)
    let ?w2 = "snd (validateSecret env (fst (snd c)) ?w1)"
    have u2: "users ?w2 = users w"
      by (simp add: obtainCredentials_effect(1) validateSecret_effect(1))
    have s2: "status_writes uid (trace ?w2) = status_writes uid (trace w)"
      by (simp add: obtainCredentials_effect(2) validateSecret_effect(2))
    show ?thesis
    proof (cases "fst (validateSecret env (fst (snd c)) ?w1)")
      case (Inl e)
      then have "res = Inl e" "w' = ?w2"
        using assms Inr Some by (simp_all add: createApiCredentials_try_unfold)
      then show ?thesis using u2 s2 by simp
    next
      case r: (Inr u)
      then have out: "res = Inr ()"
          "w' = logActivity uid ''API_CREDENTIALS_CREATED'' uid True
                  (setUserStatus uid READY (storeApiCredentials uid c ?w2))"
        using assms Inr Some by (simp_all add: createApiCredentials_try_unfold)
      have "findUser (storeApiCredentials uid c ?w2) uid = None \<longleftrightarrow> findUser w uid = None"
        by (simp add: findUser_store_cong findUser_cong [OF u2])
      then show ?thesis using out s2
        by (simp add: userStatus_logActivity userStatus_setUserStatus)
    qed
  qed
qed

lemma createApiCredentials_status:
  assumes "createApiCredentials env uid w = (res, w')"
  shows "w' = w
       \<or> (res = Inr () \<and> status_writes uid (trace w') =
             status_writes uid (trace w) @ [SETTING_UP, READY]
           \<and> userStatus w' uid = Some READY)
       \<or> (isl res \<and> status_writes uid (trace w') =
             status_writes uid (trace w) @ [SETTING_UP, SAFE_DEPLOYED]
           \<and> userStatus w' uid = Some SAFE_DEPLOYED)"
proof (cases "findUser w uid")
  case None
  then show ?thesis using assms by (simp add: createApiCredentials_def)
next
  case (Some usr)
  show ?thesis
  proof (cases "truthy (u_safeAddress usr)")
    case False
    then have "w' = w" using assms Some by (auto simp add: createApiCredentials_def)
    then show ?thesis by simp
  next
    case True
    let ?w1 = "setUserStatus uid SETTING_UP w"
    obtain r w2 where t: "createApiCredentials_try env uid ?w1 = (r, w2)"
      by (cases "createApiCredentials_try env uid ?w1") auto
    note eff = createApiCredentials_try_effect [OF t]
    have f1: "findUser ?w1 uid \<noteq> None" using Some by (simp add: findUser_setUserStatus)
    have unfold: "createApiCredentials env uid w =
        (case r of Inr u \<Rightarrow> (Inr (), w2) | Inl e \<Rightarrow> (Inl e, setUserStatus uid SAFE_DEPLOYED w2))"
      using Some True t by (auto simp add: createApiCredentials_def split: sum.splits)
    show ?thesis
    proof (cases r)
      case (Inr u)
      then have "res = Inr ()" "w' = w2" using assms unfold by simp_all
      then show ?thesis using eff Inr f1 by auto
    next
      case (Inl e)
      then have out: "res = Inl e" "w' = setUserStatus uid SAFE_DEPLOYED w2"
        using assms unfold by simp_all
      have us: "users w2 = users ?w1"
        and sw: "status_writes uid (trace w2) = status_writes uid (trace ?w1)"
        using eff Inl by auto
      have f2: "findUser w2 uid \<noteq> None" using f1 by (simp add: findUser_cong [OF us])
      show ?thesis using out sw f2 by (auto simp add: userStatus_setUserStatus)
    qed
  qed
qed




lemmas wallet_ex_defs = wallet_world_def ex_user_def fresh_user_def deployed_user_def
  ex_wenv_def ok_creds_def throwing_codec_env_def rpc_down_env_def


lemmas wallet_model_defs = deploySafeWallet_def deploySafeWallet_try_def deployAttempts.simps
  deployAttempt_def deployCatch_def deployCheckTransaction_def deployCatchOuter_def
  getUserWallet_def findUser_def truthy_def js_or_def getBuilderConfig_def getCode_def
  has_code_def waitBeforeRetry_def setUserStatus_def updateUser_def emit_def count_events_def
  Let_def createApiCredentials_def createApiCredentials_try_def obtainCredentials_def
  extractCredentials_def validateSecret_def storeApiCredentials_def logActivity_def
  userStatus_def

lemma not_already: "\<not> alreadyDeployedMessage ''fetch failed''"
  by (simp add: alreadyDeployedMessage_def toLowerCase_def to_lower_def)

lemma no_addr: "match_address ''fetch failed'' = None"
  by simp


lemma codec: "node_from_base64 ''ab-_'' = Some [105, 191, 191]" "node_to_base64 [105, 191, 191] = ''ab+/''"
  by (simp_all add: node_from_base64_def base64_value_def base64_alphabet_def base64_char_def)


section \<open>Properties of the wallet service\<close>

text \<open>
  C7. For an account whose record has the deployment flag and a non-empty address,
  \<open>deploySafeWallet\<close> returns that address and leaves the world as it was: no call
  reaches the relay and the record is unchanged. A second call gives the same.
\<close>

theorem deploySafeWallet_idempotent:
  assumes "findUser w userId = Some usr" and "u_safeDeployed usr"
      and "u_safeAddress usr = Some a" and "a \<noteq> []"
  shows "deploySafeWallet env userId w = (Inr a, w)
       \<and> deploySafeWallet env userId (snd (deploySafeWallet env userId w)) = (Inr a, w)"
  using assms by (simp add: deploySafeWallet_def truthy_def)


theorem deploySafeWallet_idempotent_witness:
  "findUser wallet_world ''u1'' = Some ex_user \<and> u_safeDeployed ex_user
   \<and> u_safeAddress ex_user = Some ''0x5afe''
   \<and> deploySafeWallet ex_wenv ''u1'' wallet_world = (Inr ''0x5afe'', wallet_world)
   \<and> filter is_deploy (trace (snd (deploySafeWallet ex_wenv ''u1'' wallet_world))) = []"
proof -
  have f: "findUser wallet_world ''u1'' = Some ex_user"
    by (simp add: findUser_def wallet_ex_defs)
  have d: "u_safeDeployed ex_user" "u_safeAddress ex_user = Some ''0x5afe''" "''0x5afe'' \<noteq> []"
    by (simp_all add: ex_user_def)
  have t: "trace wallet_world = []" by (simp add: wallet_world_def)
  show ?thesis
    using f d deploySafeWallet_idempotent [OF f d(1) d(2) d(3), of ex_wenv] t by simp
qed





text \<open>
  C6, as the code has it. A deployment entered with status CREATED or SAFE_DEPLOYING,
  and a credential creation entered with any status but READY, write statuses that,
  following the status at entry, only move forward or along one of the two reverts.
  Whatever the status at entry, a call that changed anything does not leave the account
  at SAFE_DEPLOYING or SETTING_UP; a call that returned at one of its guards left the
  world as it was.
\<close>

theorem provisioning_status_moves:
  assumes "findUser w uid = Some usr"
  shows "(status_rank (u_status usr) \<le> status_rank SAFE_DEPLOYING \<longrightarrow>
            (\<exists>new. status_writes uid (trace (snd (deploySafeWallet env uid w))) =
                      status_writes uid (trace w) @ new
                   \<and> allowed_path (u_status usr # new)))
       \<and> (u_status usr \<noteq> READY \<longrightarrow>
            (\<exists>new. status_writes uid (trace (snd (createApiCredentials env uid w))) =
                      status_writes uid (trace w) @ new
                   \<and> allowed_path (u_status usr # new)))
       \<and> (snd (deploySafeWallet env uid w) = w
            \<or> \<not> transient (userStatus (snd (deploySafeWallet env uid w)) uid))
       \<and> (snd (createApiCredentials env uid w) = w
            \<or> \<not> transient (userStatus (snd (createApiCredentials env uid w)) uid))"
proof -
  obtain r1 w1 where d: "deploySafeWallet env uid w = (r1, w1)"
    by (cases "deploySafeWallet env uid w") auto
  obtain r2 w2 where c: "createApiCredentials env uid w = (r2, w2)"
    by (cases "createApiCredentials env uid w") auto
  note ds = deploySafeWallet_status [OF d]
  note cs = createApiCredentials_status [OF c]
  have A: "\<exists>new. status_writes uid (trace w1) = status_writes uid (trace w) @ new
                   \<and> allowed_path (u_status usr # new)"
    if "status_rank (u_status usr) \<le> status_rank SAFE_DEPLOYING"
  proof -
    from that have s: "u_status usr = CREATED \<or> u_status usr = SAFE_DEPLOYING"
      by (cases "u_status usr") simp_all
    from ds consider "w1 = w"
      | "status_writes uid (trace w1) = status_writes uid (trace w) @ [SAFE_DEPLOYING, SAFE_DEPLOYED]"
      | "status_writes uid (trace w1) = status_writes uid (trace w) @ [SAFE_DEPLOYING, CREATED]"
      by blast
    then show ?thesis
    proof cases
      case 1
      then have "status_writes uid (trace w1) = status_writes uid (trace w) @ []
                 \<and> allowed_path (u_status usr # [])" by simp
      then show ?thesis by (rule exI)
    next
      case 2
      moreover have "allowed_path (u_status usr # [SAFE_DEPLOYING, SAFE_DEPLOYED])"
        using s by (auto simp add: allowed_move_def)
      ultimately show ?thesis by blast
    next
      case 3
      moreover have "allowed_path (u_status usr # [SAFE_DEPLOYING, CREATED])"
        using s by (auto simp add: allowed_move_def)
      ultimately show ?thesis by blast
    qed
  qed
  have B: "\<exists>new. status_writes uid (trace w2) = status_writes uid (trace w) @ new
                   \<and> allowed_path (u_status usr # new)"
    if "u_status usr \<noteq> READY"
  proof -
    from that have s: "status_rank (u_status usr) \<le> status_rank SETTING_UP"
      by (cases "u_status usr") simp_all
    from cs consider "w2 = w"
      | "status_writes uid (trace w2) = status_writes uid (trace w) @ [SETTING_UP, READY]"
      | "status_writes uid (trace w2) = status_writes uid (trace w) @ [SETTING_UP, SAFE_DEPLOYED]"
      by blast
    then show ?thesis
    proof cases
      case 1
      then have "status_writes uid (trace w2) = status_writes uid (trace w) @ []
                 \<and> allowed_path (u_status usr # [])" by simp
      then show ?thesis by (rule exI)
    next
      case 2
      moreover have "allowed_path (u_status usr # [SETTING_UP, READY])"
        using s by (auto simp add: allowed_move_def)
      ultimately show ?thesis by blast
    next
      case 3
      moreover have "allowed_path (u_status usr # [SETTING_UP, SAFE_DEPLOYED])"
        using s by (auto simp add: allowed_move_def)
      ultimately show ?thesis by blast
    qed
  qed
  have C: "w1 = w \<or> \<not> transient (userStatus w1 uid)"
    using ds by (auto simp add: transient_def)
  have D: "w2 = w \<or> \<not> transient (userStatus w2 uid)"
    using cs by (auto simp add: transient_def)
  show ?thesis using A B C D by (simp add: d c)
qed

theorem provisioning_status_moves_witness:
  "findUser wallet_world ''u2'' = Some fresh_user
   \<and> status_rank (u_status fresh_user) \<le> status_rank SAFE_DEPLOYING
   \<and> status_writes ''u2'' (trace (snd (deploySafeWallet ex_wenv ''u2'' wallet_world))) =
       [SAFE_DEPLOYING, CREATED]
   \<and> allowed_path (u_status fresh_user # [SAFE_DEPLOYING, CREATED])
   \<and> \<not> transient (userStatus (snd (deploySafeWallet ex_wenv ''u2'' wallet_world)) ''u2'')"
proof -
  have f: "findUser wallet_world ''u2'' = Some fresh_user"
    by (simp add: findUser_def wallet_ex_defs)
  have r: "status_rank (u_status fresh_user) \<le> status_rank SAFE_DEPLOYING"
    by (simp add: fresh_user_def)
  have run: "deploySafeWallet ex_wenv ''u2'' wallet_world =
     (Inl ''fetch failed'',
      wallet_world\<lparr>trace := [StatusWrite ''u2'' SAFE_DEPLOYING, RelayDeploy,
        ChainGetCode ''0x9red'', Sleep 2000, RelayDeploy,
        ChainGetCode ''0x9red'', Sleep 4000, RelayDeploy,
        ChainGetCode ''0x9red'', StatusWrite ''u2'' CREATED]\<rparr>)"
    by (simp add: wallet_model_defs wallet_ex_defs not_already no_addr)
  have t: "trace wallet_world = []" by (simp add: wallet_world_def)
  have ne: "snd (deploySafeWallet ex_wenv ''u2'' wallet_world) \<noteq> wallet_world"
  proof
    assume "snd (deploySafeWallet ex_wenv ''u2'' wallet_world) = wallet_world"
    then have "trace (snd (deploySafeWallet ex_wenv ''u2'' wallet_world)) = trace wallet_world"
      by simp
    then show False by (simp add: run t)
  qed
  show ?thesis
    using f r ne provisioning_status_moves [OF f, of ex_wenv]
    by (auto simp add: run t)
qed

text \<open>
  A credential creation on an account that is READY writes SETTING_UP first: a step
  back that is neither of the two reverts.
\<close>

theorem createApiCredentials_ready_steps_back:
  "userStatus wallet_world ''u1'' = Some READY
   \<and> status_writes ''u1'' (trace (snd (createApiCredentials ex_wenv ''u1'' wallet_world))) =
       [SETTING_UP, READY]
   \<and> \<not> allowed_path [READY, SETTING_UP, READY]"
  by (simp add: wallet_model_defs wallet_ex_defs codec allowed_move_def)

text \<open>
  C8, as the code has it. When the order book hands out credentials, the secret is
  decoded before anything is stored. Only a decoder that throws aborts the call: the
  error names the invalid secret, the stored credentials are as before and the status
  is back at SAFE_DEPLOYED. A secret that decodes is stored and the account becomes
  READY; if it encodes back to a different text, this is only reported by a warning.
\<close>

theorem createApiCredentials_secret_check:
  assumes user: "findUser w uid = Some usr"
      and safe: "truthy (u_safeAddress usr)"
      and key: "truthy (u_encryptedPrivateKey usr)"
      and creds: "fst (obtainCredentials env w) = Some (k, s, p)"
  shows "(buffer_from_base64 env s = None \<longrightarrow>
            fst (createApiCredentials env uid w) =
              Inl ''CLOB API returned invalid base64 secret - cannot proceed''
            \<and> findUser (snd (createApiCredentials env uid w)) uid =
                Some (usr\<lparr>u_status := SAFE_DEPLOYED\<rparr>))
       \<and> (buffer_from_base64 env s \<noteq> None \<longrightarrow>
            fst (createApiCredentials env uid w) = Inr ()
            \<and> findUser (snd (createApiCredentials env uid w)) uid =
                Some (usr\<lparr>u_encryptedApiKey := Some k,
                          u_encryptedApiSecret := Some s,
                          u_encryptedApiPassphrase := Some p,
                          u_status := READY\<rparr>))
       \<and> (\<forall>d. buffer_from_base64 env s = Some d \<and> buffer_to_base64 env d \<noteq> s \<longrightarrow>
            ConsoleWarn ''WARNING: Secret re-encoded differently!''
              \<in> set (trace (snd (createApiCredentials env uid w))))"
proof -
  let ?w1 = "setUserStatus uid SETTING_UP w"
  let ?w2 = "snd (obtainCredentials env ?w1)"
  let ?w3 = "snd (validateSecret env s ?w2)"
  let ?w4 = "logActivity uid ''API_CREDENTIALS_CREATED'' uid True
               (setUserStatus uid READY (storeApiCredentials uid (k, s, p) ?w3))"
  have f1: "findUser ?w1 uid = Some (usr\<lparr>u_status := SETTING_UP\<rparr>)"
    using user by (simp add: findUser_setUserStatus)
  have wal: "getUserWallet ?w1 uid = Inr (u_eoaAddress usr)"
    using f1 key by (simp add: getUserWallet_def)
  have oc: "fst (obtainCredentials env ?w1) = Some (k, s, p)"
    using creds obtainCredentials_effect(3) [of env ?w1 w] by simp
  have u3: "users ?w3 = users ?w1"
    by (simp add: obtainCredentials_effect(1) validateSecret_effect(1))
  have f3: "findUser ?w3 uid = Some (usr\<lparr>u_status := SETTING_UP\<rparr>)"
    using f1 by (simp add: findUser_cong [OF u3])
  have tr: "createApiCredentials_try env uid ?w1 =
      (case buffer_from_base64 env s of
         None \<Rightarrow> (Inl ''CLOB API returned invalid base64 secret - cannot proceed'', ?w3)
       | Some d \<Rightarrow> (Inr (), ?w4))"
    by (simp add: createApiCredentials_try_unfold wal oc validateSecret_effect(3)
          split: option.splits)
  have out: "createApiCredentials env uid w =
      (case buffer_from_base64 env s of
         None \<Rightarrow> (Inl ''CLOB API returned invalid base64 secret - cannot proceed'',
                  setUserStatus uid SAFE_DEPLOYED ?w3)
       | Some d \<Rightarrow> (Inr (), ?w4))"
    using user safe by (simp add: createApiCredentials_def tr split: option.splits)
  have A: "findUser (setUserStatus uid SAFE_DEPLOYED ?w3) uid = Some (usr\<lparr>u_status := SAFE_DEPLOYED\<rparr>)"
    by (simp add: findUser_setUserStatus f3)
  have B: "findUser ?w4 uid =
      Some (usr\<lparr>u_encryptedApiKey := Some k,
                u_encryptedApiSecret := Some s,
                u_encryptedApiPassphrase := Some p,
                u_status := READY\<rparr>)"
    by (simp add: findUser_setUserStatus users_storeApiCredentials f3)
  have C: "ConsoleWarn ''WARNING: Secret re-encoded differently!'' \<in> set (trace ?w4)"
    if "buffer_from_base64 env s = Some d" "buffer_to_base64 env d \<noteq> s" for d
    using that by (simp add: validateSecret_def)
  show ?thesis using A B C by (auto simp add: out)
qed

theorem createApiCredentials_secret_check_witness:
  "findUser wallet_world ''u3'' = Some deployed_user
   \<and> fst (obtainCredentials ex_wenv wallet_world) = Some (''key'', ''ab-_'', ''pass'')
   \<and> buffer_from_base64 throwing_codec_env ''ab-_'' = None
   \<and> fst (createApiCredentials throwing_codec_env ''u3'' wallet_world) =
       Inl ''CLOB API returned invalid base64 secret - cannot proceed''
   \<and> findUser (snd (createApiCredentials throwing_codec_env ''u3'' wallet_world)) ''u3'' =
       Some deployed_user
   \<and> buffer_from_base64 ex_wenv ''ab-_'' \<noteq> None
   \<and> fst (createApiCredentials ex_wenv ''u3'' wallet_world) = Inr ()"
proof -
  have f: "findUser wallet_world ''u3'' = Some deployed_user"
    by (simp add: findUser_def wallet_ex_defs)
  have s: "truthy (u_safeAddress deployed_user)" "truthy (u_encryptedPrivateKey deployed_user)"
    by (simp_all add: deployed_user_def fresh_user_def truthy_def)
  have c1: "fst (obtainCredentials ex_wenv wallet_world) = Some (''key'', ''ab-_'', ''pass'')"
    by (simp add: wallet_model_defs wallet_ex_defs)
  have c2: "fst (obtainCredentials throwing_codec_env wallet_world) = Some (''key'', ''ab-_'', ''pass'')"
    by (simp add: wallet_model_defs wallet_ex_defs)
  have d1: "buffer_from_base64 throwing_codec_env ''ab-_'' = None"
    by (simp add: throwing_codec_env_def)
  have d2: "buffer_from_base64 ex_wenv ''ab-_'' \<noteq> None"
    by (simp add: ex_wenv_def node_from_base64_def)
  have u: "deployed_user\<lparr>u_status := SAFE_DEPLOYED\<rparr> = deployed_user"
    by (simp add: deployed_user_def)
  show ?thesis
    using f c1 d1 d2
      createApiCredentials_secret_check [OF f s(1) s(2) c1]
      createApiCredentials_secret_check [OF f s(1) s(2) c2]
    by (simp add: u)
qed

text \<open>
  A secret in the URL-safe alphabet decodes, encodes back to a different text, and is
  stored all the same.
\<close>

theorem createApiCredentials_persists_mismatched_secret:
  "fst (obtainCredentials ex_wenv wallet_world) = Some (''key'', ''ab-_'', ''pass'')
   \<and> buffer_from_base64 ex_wenv ''ab-_'' = Some [105, 191, 191]
   \<and> buffer_to_base64 ex_wenv [105, 191, 191] = ''ab+/''
   \<and> fst (createApiCredentials ex_wenv ''u3'' wallet_world) = Inr ()
   \<and> map_option u_encryptedApiSecret
         (findUser (snd (createApiCredentials ex_wenv ''u3'' wallet_world)) ''u3'') =
       Some (Some ''ab-_'')"
  by (simp add: wallet_model_defs wallet_ex_defs node_from_base64_def base64_value_def
        base64_alphabet_def base64_char_def)

end
